theory Spec2Isabelle
  imports Complex_Main "HOL-Library.Word"
begin

section \<open>Python values used by the program\<close>

text \<open>
  Strings are lists of 8-bit characters, read as the code points below 256 (Latin-1).
  The character classes below are Python's for that range: \<^verbatim>\<open>str.isspace\<close> (used by
  \<^verbatim>\<open>strip\<close> and \<^verbatim>\<open>split\<close>), the decimal digits of \<^verbatim>\<open>\d\<close>, the word
  characters of \<^verbatim>\<open>\w\<close> (alphanumeric or underscore) and \<^verbatim>\<open>str.lower\<close>.
\<close>

definition is_space :: "char \<Rightarrow> bool" where
  "is_space c = (c \<in> set [CHR 0x09, CHR 0x0A, CHR 0x0B, CHR 0x0C, CHR 0x0D, CHR 0x1C,
     CHR 0x1D, CHR 0x1E, CHR 0x1F, CHR 0x20, CHR 0x85, CHR 0xA0])"

definition is_digit :: "char \<Rightarrow> bool" where
  "is_digit c = (c \<in> set ''0123456789'')"

definition ascii_upper :: string where
  "ascii_upper = ''ABCDEFGHIJKLMNOPQRSTUVWXYZ''"

definition ascii_lower :: string where
  "ascii_lower = ''abcdefghijklmnopqrstuvwxyz''"

definition latin_upper :: string where
  "latin_upper = [CHR 0xC0, CHR 0xC1, CHR 0xC2, CHR 0xC3, CHR 0xC4, CHR 0xC5, CHR 0xC6,
     CHR 0xC7, CHR 0xC8, CHR 0xC9, CHR 0xCA, CHR 0xCB, CHR 0xCC, CHR 0xCD, CHR 0xCE,
     CHR 0xCF, CHR 0xD0, CHR 0xD1, CHR 0xD2, CHR 0xD3, CHR 0xD4, CHR 0xD5, CHR 0xD6,
     CHR 0xD8, CHR 0xD9, CHR 0xDA, CHR 0xDB, CHR 0xDC, CHR 0xDD, CHR 0xDE]"

definition latin_lower :: string where
  "latin_lower = [CHR 0xE0, CHR 0xE1, CHR 0xE2, CHR 0xE3, CHR 0xE4, CHR 0xE5, CHR 0xE6,
     CHR 0xE7, CHR 0xE8, CHR 0xE9, CHR 0xEA, CHR 0xEB, CHR 0xEC, CHR 0xED, CHR 0xEE,
     CHR 0xEF, CHR 0xF0, CHR 0xF1, CHR 0xF2, CHR 0xF3, CHR 0xF4, CHR 0xF5, CHR 0xF6,
     CHR 0xF8, CHR 0xF9, CHR 0xFA, CHR 0xFB, CHR 0xFC, CHR 0xFD, CHR 0xFE]"

definition is_word :: "char \<Rightarrow> bool" where
  "is_word c = (is_digit c \<or> c \<in> set ascii_upper \<or> c \<in> set ascii_lower \<or> c = CHR ''_''
     \<or> c \<in> set latin_upper \<or> c \<in> set latin_lower
     \<or> c \<in> set [CHR 0xAA, CHR 0xB2, CHR 0xB3, CHR 0xB5, CHR 0xB9, CHR 0xBA, CHR 0xBC,
          CHR 0xBD, CHR 0xBE, CHR 0xDF, CHR 0xFF])"

definition lower_char :: "char \<Rightarrow> char" where
  "lower_char c = (case map_of (zip (ascii_upper @ latin_upper) (ascii_lower @ latin_lower)) c of
     Some l \<Rightarrow> l | None \<Rightarrow> c)"

definition lower :: "string \<Rightarrow> string" where
  "lower s = map lower_char s"

text \<open>
  \<^verbatim>\<open>s.upper()\<close>. The sharp s becomes \<^verbatim>\<open>SS\<close>; the micro sign and the y with diaeresis,
  whose capitals lie beyond code point 255, are kept as they are (the program only
  compares the result with words of ASCII capitals, which no such character equals).
\<close>

definition upper_char :: "char \<Rightarrow> string" where
  "upper_char c = (if c = CHR 0xDF then ''SS''
     else case map_of (zip (ascii_lower @ latin_lower) (ascii_upper @ latin_upper)) c of
       Some u \<Rightarrow> [u] | None \<Rightarrow> [c])"

definition upper :: "string \<Rightarrow> string" where
  "upper s = concat (map upper_char s)"

text \<open>\<^verbatim>\<open>s.strip()\<close>: leading and trailing whitespace removed.\<close>

definition strip :: "string \<Rightarrow> string" where
  "strip s = rev (dropWhile is_space (rev (dropWhile is_space s)))"

text \<open>\<^verbatim>\<open>s.split()\<close>: the maximal runs of non-whitespace characters, in order.\<close>

fun split_acc :: "string \<Rightarrow> string \<Rightarrow> string list" where
  "split_acc w [] = (if w = [] then [] else [rev w])"
| "split_acc w (c # cs) =
     (if is_space c then (if w = [] then split_acc [] cs else rev w # split_acc [] cs)
      else split_acc (c # w) cs)"

definition split :: "string \<Rightarrow> string list" where
  "split s = split_acc [] s"

text \<open>\<^verbatim>\<open>sep.join(xs)\<close>.\<close>

fun join :: "string \<Rightarrow> string list \<Rightarrow> string" where
  "join sep [] = []"
| "join sep [x] = x"
| "join sep (x # y # ys) = x @ sep @ join sep (y # ys)"

text \<open>\<^verbatim>\<open>x in s\<close> for strings: \<open>x\<close> occurs as a contiguous piece of \<open>s\<close>.\<close>

fun is_prefix :: "string \<Rightarrow> string \<Rightarrow> bool" where
  "is_prefix [] s = True"
| "is_prefix (x # xs) [] = False"
| "is_prefix (x # xs) (c # cs) = (x = c \<and> is_prefix xs cs)"

fun contains :: "string \<Rightarrow> string \<Rightarrow> bool" where
  "contains [] x = (x = [])"
| "contains (c # cs) x = (is_prefix x (c # cs) \<or> contains cs x)"

text \<open>
  \<^verbatim>\<open>str(n)\<close> for a non-negative integer, and the zero-padded \<^verbatim>\<open>%02d\<close>, \<^verbatim>\<open>%04d\<close>
  and \<^verbatim>\<open>%06d\<close> of the date and time formats.
\<close>

definition digit_char :: "nat \<Rightarrow> char" where
  "digit_char d = ''0123456789'' ! (d mod 10)"

fun str_nat :: "nat \<Rightarrow> string" where
  "str_nat n = (if n < 10 then [digit_char n] else str_nat (n div 10) @ [digit_char n])"

declare str_nat.simps [simp del]

definition zero_pad :: "nat \<Rightarrow> nat \<Rightarrow> string" where
  "zero_pad w n = replicate (w - length (str_nat n)) CHR ''0'' @ str_nat n"

text \<open>
  \<^verbatim>\<open>repr\<close> of a list of strings, as an f-string renders a list. The strings rendered by
  the program are its fixed enumerations and hexadecimal ids, which hold no quote, no
  backslash and no unprintable character, so each is written between single quotes.
\<close>

definition repr_str :: "string \<Rightarrow> string" where
  "repr_str s = CHR 0x27 # s @ [CHR 0x27]"

definition repr_list :: "string list \<Rightarrow> string" where
  "repr_list xs = ''['' @ join '', '' (map repr_str xs) @ '']''"

text \<open>
  A Python \<^verbatim>\<open>dict\<close> keeps its keys in the order of their first insertion: assigning to
  a key that is present replaces the value where it stands, assigning to a new key
  appends it.
\<close>

type_synonym ('k, 'v) py_dict = "('k \<times> 'v) list"

fun dict_set :: "('k, 'v) py_dict \<Rightarrow> 'k \<Rightarrow> 'v \<Rightarrow> ('k, 'v) py_dict" where
  "dict_set [] k v = [(k, v)]"
| "dict_set ((k', v') # d) k v = (if k' = k then (k, v) # d else (k', v') # dict_set d k v)"

definition dict_get :: "('k, 'v) py_dict \<Rightarrow> 'k \<Rightarrow> 'v option" where
  "dict_get d k = map_of d k"

definition dict_keys :: "('k, 'v) py_dict \<Rightarrow> 'k list" where
  "dict_keys d = map fst d"

definition dict_values :: "('k, 'v) py_dict \<Rightarrow> 'v list" where
  "dict_values d = map snd d"

text \<open>
  The clock: a reading of \<^verbatim>\<open>datetime.now()\<close>, with the renderings the program uses:
  \<^verbatim>\<open>strftime("%Y-%m-%d")\<close>, \<^verbatim>\<open>strftime("%Y%m%d")\<close>, \<^verbatim>\<open>strftime("%Y%m%d_%H%M%S")\<close>
  and \<^verbatim>\<open>isoformat()\<close> (which leaves the fraction out when the microsecond is 0).
\<close>

record datetime =
  year :: nat
  month :: nat
  day :: nat
  hour :: nat
  minute :: nat
  second :: nat
  microsecond :: nat

definition strftime_Y_m_d :: "datetime \<Rightarrow> string" where
  "strftime_Y_m_d t = zero_pad 4 (year t) @ ''-'' @ zero_pad 2 (month t) @ ''-'' @ zero_pad 2 (day t)"

definition strftime_Ymd :: "datetime \<Rightarrow> string" where
  "strftime_Ymd t = zero_pad 4 (year t) @ zero_pad 2 (month t) @ zero_pad 2 (day t)"

definition strftime_Ymd_HMS :: "datetime \<Rightarrow> string" where
  "strftime_Ymd_HMS t = strftime_Ymd t @ ''_'' @ zero_pad 2 (hour t) @ zero_pad 2 (minute t)
     @ zero_pad 2 (second t)"

definition isoformat :: "datetime \<Rightarrow> string" where
  "isoformat t = strftime_Y_m_d t @ ''T'' @ zero_pad 2 (hour t) @ '':'' @ zero_pad 2 (minute t)
     @ '':'' @ zero_pad 2 (second t)
     @ (if microsecond t = 0 then [] else ''.'' @ zero_pad 6 (microsecond t))"

text \<open>
  \<^verbatim>\<open>hashlib.md5(s.encode())\<close> is a library function: its 128-bit digest is a parameter
  \<open>md5\<close> of every definition that derives an id. \<^verbatim>\<open>hexdigest()\<close> writes the digest as
  32 hexadecimal digits, the most significant first.
\<close>

type_synonym md5_fn = "string \<Rightarrow> 128 word"

definition hex_char :: "nat \<Rightarrow> char" where
  "hex_char d = ''0123456789abcdef'' ! (d mod 16)"

fun hex_digits :: "nat \<Rightarrow> nat \<Rightarrow> string" where
  "hex_digits 0 n = []"
| "hex_digits (Suc k) n = hex_digits k (n div 16) @ [hex_char n]"

definition hexdigest :: "128 word \<Rightarrow> string" where
  "hexdigest w = hex_digits 32 (unat w)"

section \<open>Workflow inputs: the enumerations and the validator\<close>

text \<open>
  \<^verbatim>\<open>ResearchWorkflow.list_available_formats\<close>, \<^verbatim>\<open>list_target_audiences\<close> and
  \<^verbatim>\<open>list_depth_levels\<close> return fixed lists.
\<close>

definition list_available_formats :: "string list" where
  "list_available_formats = [''comprehensive_report'', ''executive_briefing'',
     ''presentation'', ''technical_summary'', ''policy_brief'']"

definition list_target_audiences :: "string list" where
  "list_target_audiences = [''academic'', ''professional'', ''executive'', ''technical'',
     ''general'']"

definition list_depth_levels :: "string list" where
  "list_depth_levels = [''overview'', ''detailed'', ''comprehensive'', ''expert'']"

record validation =
  valid :: bool
  errors :: "string list"

definition query_error :: string where
  "query_error = ''Research query must be at least 10 characters long''"

definition format_error :: string where
  "format_error = ''Invalid output format. Available: '' @ repr_list list_available_formats"

definition audience_error :: string where
  "audience_error = ''Invalid target audience. Available: '' @ repr_list list_target_audiences"

definition depth_error :: string where
  "depth_error = ''Invalid depth level. Available: '' @ repr_list list_depth_levels"

text \<open>
  \<^verbatim>\<open>WorkflowUtils.validate_inputs\<close>. It first constructs a \<^verbatim>\<open>ResearchWorkflow\<close>, which
  builds the three agents and the output directories through external collaborators;
  \<open>init\<close> is the outcome of that construction (\<open>Inl\<close> the message of the exception it
  raised, which \<^verbatim>\<open>validate_inputs\<close> does not catch). The checks run one after the
  other, each appending to \<^verbatim>\<open>errors\<close>.
\<close>

definition validate_inputs ::
  "string + unit \<Rightarrow> string \<Rightarrow> string \<Rightarrow> string \<Rightarrow> string \<Rightarrow> string + validation" where
  "validate_inputs init research_query output_format target_audience depth_level =
     (case init of
        Inl e \<Rightarrow> Inl e
      | Inr workflow \<Rightarrow>
          let errors0 = [];
              errors1 = (if research_query = [] \<or> length (strip research_query) < 10
                         then errors0 @ [query_error] else errors0);
              errors2 = (if output_format \<notin> set list_available_formats
                         then errors1 @ [format_error] else errors1);
              errors3 = (if target_audience \<notin> set list_target_audiences
                         then errors2 @ [audience_error] else errors2);
              errors4 = (if depth_level \<notin> set list_depth_levels
                         then errors3 @ [depth_error] else errors3)
          in Inr \<lparr>valid = (length errors4 = 0), errors = errors4\<rparr>)"

section \<open>Citation Manager\<close>

text \<open>
  \<^verbatim>\<open>CitationData\<close>, and the state of a \<^verbatim>\<open>CitationManager\<close>: the dictionaries
  \<^verbatim>\<open>_citations\<close> and \<^verbatim>\<open>_citation_usage\<close>.
\<close>

record CitationData =
  title :: string
  authors :: "string list"
  url :: string
  date_accessed :: string
  source_type :: string
  publication_date :: "string option"
  publisher :: "string option"
  doi :: "string option"
  citation_id :: string

record CitationManager =
  citations :: "(string, CitationData) py_dict"
  citation_usage :: "(string, nat) py_dict"

definition new_CitationManager :: CitationManager where
  "new_CitationManager = \<lparr>citations = [], citation_usage = []\<rparr>"

text \<open>The keyword arguments \<^verbatim>\<open>_add_citation\<close> reads with \<^verbatim>\<open>kwargs.get\<close>.\<close>

record citation_kwargs =
  kw_source_type :: "string option"
  kw_publication_date :: "string option"
  kw_publisher :: "string option"
  kw_doi :: "string option"

definition no_kwargs :: citation_kwargs where
  "no_kwargs = \<lparr>kw_source_type = None, kw_publication_date = None, kw_publisher = None,
     kw_doi = None\<rparr>"

definition no_url :: string where
  "no_url = ''No URL provided''"

text \<open>
  \<^verbatim>\<open>_generate_citation_id\<close>: the first 8 hexadecimal digits of the MD5 of title, url
  and the clock reading \<open>now\<close> in ISO format.
\<close>

definition generate_citation_id :: "md5_fn \<Rightarrow> datetime \<Rightarrow> string \<Rightarrow> string \<Rightarrow> string" where
  "generate_citation_id md5 now title' url' = take 8 (hexdigest (md5 (title' @ url' @ isoformat now)))"

text \<open>
  \<^verbatim>\<open>_add_citation\<close>. It reads the clock twice: \<open>now_id\<close> inside
  \<^verbatim>\<open>_generate_citation_id\<close>, then \<open>now_acc\<close> for \<^verbatim>\<open>date_accessed\<close>. The fields have
  the types \<^verbatim>\<open>CitationData\<close> declares, so its construction does not fail.
\<close>

definition add_citation ::
  "md5_fn \<Rightarrow> datetime \<Rightarrow> datetime \<Rightarrow> CitationManager \<Rightarrow> string \<Rightarrow> string \<Rightarrow> string list
     \<Rightarrow> citation_kwargs \<Rightarrow> string \<times> CitationManager" where
  "add_citation md5 now_id now_acc self title' url' authors' kwargs =
     (if title' = [] then (''Error: Title is required for citations'', self)
      else
        let url2 = (if url' = [] then no_url else url');
            cid = generate_citation_id md5 now_id title' url2;
            citation = \<lparr>title = title', authors = authors', url = url2,
              date_accessed = strftime_Y_m_d now_acc,
              source_type = (case kw_source_type kwargs of None \<Rightarrow> ''web'' | Some t \<Rightarrow> t),
              publication_date = kw_publication_date kwargs,
              publisher = kw_publisher kwargs,
              doi = kw_doi kwargs,
              citation_id = cid\<rparr>
        in (''Citation added successfully with ID: '' @ cid,
            self\<lparr>citations := dict_set (citations self) cid citation\<rparr>))"

text \<open>
  The three styles. Each builds its text (\<open>apa_body\<close>, \<open>mla_body\<close>, \<open>chicago_body\<close>:
  the value of \<^verbatim>\<open>formatted\<close> before the last \<^verbatim>\<open>if\<close>) and appends the url unless it
  is empty or the sentinel. An optional field that is \<^verbatim>\<open>None\<close> or the empty string is
  false for Python's \<^verbatim>\<open>or\<close> (\<open>or_else\<close>) and \<^verbatim>\<open>if\<close>.
\<close>

definition or_else :: "string option \<Rightarrow> string \<Rightarrow> string" where
  "or_else x y = (case x of None \<Rightarrow> y | Some s \<Rightarrow> if s = [] then y else s)"

definition apa_body :: "CitationData \<Rightarrow> string" where
  "apa_body citation =
     (let authors_str =
            (if authors citation \<noteq> [] then
               (if length (authors citation) = 1 then authors citation ! 0
                else if length (authors citation) = 2
                  then authors citation ! 0 @ '' & '' @ authors citation ! 1
                else join '', '' (butlast (authors citation)) @ '', & '' @ last (authors citation))
             else ''Unknown Author'');
          date_str = or_else (publication_date citation) (date_accessed citation);
          formatted = authors_str @ ''. ('' @ date_str @ ''). '' @ title citation @ ''. ''
      in case publisher citation of
           None \<Rightarrow> formatted
         | Some p \<Rightarrow> if p = [] then formatted else formatted @ p @ ''. '')"

definition format_apa :: "CitationData \<Rightarrow> string" where
  "format_apa citation =
     (if url citation \<noteq> [] \<and> url citation \<noteq> no_url
      then apa_body citation @ ''Retrieved from '' @ url citation
      else apa_body citation)"

definition mla_body :: "CitationData \<Rightarrow> string" where
  "mla_body citation =
     (let authors_str =
            (if authors citation \<noteq> [] then
               (if length (authors citation) > 1 then authors citation ! 0 @ '' et al.''
                else authors citation ! 0)
             else ''Unknown Author'')
      in authors_str @ ''. '' @ [CHR 0x22] @ title citation @ ''.'' @ [CHR 0x22] @ '' Web. ''
           @ date_accessed citation @ ''.'')"

definition format_mla :: "CitationData \<Rightarrow> string" where
  "format_mla citation =
     (if url citation \<noteq> [] \<and> url citation \<noteq> no_url
      then mla_body citation @ '' <'' @ url citation @ ''>.''
      else mla_body citation)"

definition chicago_body :: "CitationData \<Rightarrow> string" where
  "chicago_body citation =
     (let authors_str = (if authors citation \<noteq> [] then authors citation ! 0
                         else ''Unknown Author'')
      in authors_str @ ''. '' @ [CHR 0x22] @ title citation @ ''.'' @ [CHR 0x22]
           @ '' Accessed '' @ date_accessed citation @ ''.'')"

definition format_chicago :: "CitationData \<Rightarrow> string" where
  "format_chicago citation =
     (if url citation \<noteq> [] \<and> url citation \<noteq> no_url
      then chicago_body citation @ '' '' @ url citation @ ''.''
      else chicago_body citation)"

text \<open>\<^verbatim>\<open>_format_citation\<close>.\<close>

definition format_citation :: "CitationManager \<Rightarrow> string \<Rightarrow> string \<Rightarrow> string" where
  "format_citation self cid style =
     (if cid = [] then ''Error: Citation ID is required for formatting''
      else case dict_get (citations self) cid of
        None \<Rightarrow> ''Citation with ID '' @ cid @ '' not found. Available IDs: ''
                  @ repr_list (dict_keys (citations self))
      | Some citation \<Rightarrow>
          if upper style = ''APA'' then format_apa citation
          else if upper style = ''MLA'' then format_mla citation
          else if upper style = ''CHICAGO'' then format_chicago citation
          else ''Unsupported citation style: '' @ style @ ''. Supported styles: APA, MLA, Chicago'')"

text \<open>\<^verbatim>\<open>_list_citations\<close> and \<^verbatim>\<open>_generate_bibliography\<close>.\<close>

definition list_citations :: "CitationManager \<Rightarrow> string" where
  "list_citations self =
     (if citations self = [] then ''No citations stored.''
      else ''Stored Citations:'' @ [CHR 0x0A]
        @ concat (map (\<lambda>(cid, citation). ''- '' @ cid @ '': '' @ title citation @ [CHR 0x0A])
            (citations self)))"

definition generate_bibliography :: "CitationManager \<Rightarrow> string \<Rightarrow> string" where
  "generate_bibliography self style =
     (if citations self = [] then ''No citations available for bibliography.''
      else ''Bibliography ('' @ upper style @ '' Style):'' @ [CHR 0x0A, CHR 0x0A]
        @ concat (map (\<lambda>(cid, citation). format_citation self cid style @ [CHR 0x0A, CHR 0x0A])
            (citations self)))"

text \<open>\<^verbatim>\<open>_track_usage\<close>.\<close>

definition track_usage :: "CitationManager \<Rightarrow> string \<Rightarrow> string \<times> CitationManager" where
  "track_usage self cid =
     (if cid = [] then (''Error: Citation ID is required for usage tracking'', self)
      else if dict_get (citations self) cid = None
        then (''Citation with ID '' @ cid @ '' not found'', self)
      else
        let n = (case dict_get (citation_usage self) cid of None \<Rightarrow> 0 | Some k \<Rightarrow> k) + 1
        in (''Citation '' @ cid @ '' usage tracked. Total uses: '' @ str_nat n,
            self\<lparr>citation_usage := dict_set (citation_usage self) cid n\<rparr>))"

text \<open>
  \<^verbatim>\<open>CitationManager._run\<close>: the dispatch on the action. \<open>authors'\<close> is \<open>None\<close> when the
  caller gave no list.
\<close>

definition citation_run ::
  "md5_fn \<Rightarrow> datetime \<Rightarrow> datetime \<Rightarrow> CitationManager \<Rightarrow> string \<Rightarrow> string \<Rightarrow> string
     \<Rightarrow> string list option \<Rightarrow> string \<Rightarrow> string \<Rightarrow> citation_kwargs \<Rightarrow> string \<times> CitationManager" where
  "citation_run md5 now_id now_acc self action title' url' authors' cid style kwargs =
     (if action = ''add''
        then add_citation md5 now_id now_acc self title' url'
               (case authors' of None \<Rightarrow> [] | Some a \<Rightarrow> a) kwargs
      else if action = ''format'' then (format_citation self cid style, self)
      else if action = ''list'' then (list_citations self, self)
      else if action = ''bibliography'' then (generate_bibliography self style, self)
      else if action = ''usage'' then track_usage self cid
      else (''Unknown action: '' @ action
              @ ''. Available actions: add, format, list, bibliography, usage'', self))"

section \<open>Regular expressions\<close>

text \<open>
  The patterns the quality assessor gives to \<^verbatim>\<open>re.search\<close> and \<^verbatim>\<open>re.findall\<close> are built
  from literal characters, \<^verbatim>\<open>\d\<close>, \<^verbatim>\<open>.\<close>, \<^verbatim>\<open>\b\<close>, sequence, \<^verbatim>\<open>|\<close>, \<^verbatim>\<open>?\<close> and
  \<^verbatim>\<open>+\<close>. A matcher state is the character before the current position (for
  \<^verbatim>\<open>\b\<close>) and the input that is left. \<open>rmatch\<close> lists the states in which a match
  starting at the given state can end, in the order a backtracking matcher tries them
  (the first alternative first, the longest repetition first). The flag is
  \<^verbatim>\<open>re.IGNORECASE\<close>.
\<close>

datatype regex =
    Eps
  | Lit char
  | Digit
  | AnyChar
  | WordBoundary
  | Seq regex regex
  | Alt regex regex
  | Opt regex
  | Plus regex

type_synonym mstate = "char option \<times> string"

definition char_eq :: "bool \<Rightarrow> char \<Rightarrow> char \<Rightarrow> bool" where
  "char_eq ignorecase p x = (if ignorecase then lower_char x = lower_char p else x = p)"

definition one_char :: "(char \<Rightarrow> bool) \<Rightarrow> mstate \<Rightarrow> mstate list" where
  "one_char ok st = (case snd st of [] \<Rightarrow> [] | x # xs \<Rightarrow> if ok x then [(Some x, xs)] else [])"

definition at_boundary :: "mstate \<Rightarrow> bool" where
  "at_boundary st =
     ((case fst st of None \<Rightarrow> False | Some c \<Rightarrow> is_word c)
        \<noteq> (case snd st of [] \<Rightarrow> False | x # xs \<Rightarrow> is_word x))"

fun plus_iter :: "(mstate \<Rightarrow> mstate list) \<Rightarrow> nat \<Rightarrow> mstate \<Rightarrow> mstate list" where
  "plus_iter step 0 st = []"
| "plus_iter step (Suc n) st =
     concat (map (\<lambda>st'. if length (snd st') < length (snd st)
                          then plus_iter step n st' @ [st'] else [])
               (step st))"

primrec rmatch :: "bool \<Rightarrow> regex \<Rightarrow> mstate \<Rightarrow> mstate list" where
  "rmatch ic Eps st = [st]"
| "rmatch ic (Lit p) st = one_char (char_eq ic p) st"
| "rmatch ic Digit st = one_char is_digit st"
| "rmatch ic AnyChar st = one_char (\<lambda>x. x \<noteq> CHR 0x0A) st"
| "rmatch ic WordBoundary st = (if at_boundary st then [st] else [])"
| "rmatch ic (Seq a b) st = concat (map (rmatch ic b) (rmatch ic a st))"
| "rmatch ic (Alt a b) st = rmatch ic a st @ rmatch ic b st"
| "rmatch ic (Opt a) st = rmatch ic a st @ [st]"
| "rmatch ic (Plus a) st = plus_iter (rmatch ic a) (length (snd st)) st"

text \<open>\<^verbatim>\<open>re.search\<close>, as a truth value: the pattern matches at some position.\<close>

fun search_from :: "bool \<Rightarrow> regex \<Rightarrow> char option \<Rightarrow> string \<Rightarrow> bool" where
  "search_from ic r prev [] = (rmatch ic r (prev, []) \<noteq> [])"
| "search_from ic r prev (x # xs) =
     (rmatch ic r (prev, x # xs) \<noteq> [] \<or> search_from ic r (Some x) xs)"

definition re_search :: "bool \<Rightarrow> regex \<Rightarrow> string \<Rightarrow> bool" where
  "re_search ic r s = search_from ic r None s"

text \<open>
  \<^verbatim>\<open>re.findall\<close>: the matched texts, scanning from the left; after a match of \<open>n\<close>
  characters the scan resumes behind it (\<open>skip\<close> counts the characters still to pass
  over). None of the program's patterns matches the empty text.
\<close>

fun findall_from :: "bool \<Rightarrow> regex \<Rightarrow> nat \<Rightarrow> char option \<Rightarrow> string \<Rightarrow> string list" where
  "findall_from ic r skip prev [] =
     (if skip = 0 \<and> rmatch ic r (prev, []) \<noteq> [] then [[]] else [])"
| "findall_from ic r (Suc k) prev (x # xs) = findall_from ic r k (Some x) xs"
| "findall_from ic r 0 prev (x # xs) =
     (case rmatch ic r (prev, x # xs) of
        [] \<Rightarrow> findall_from ic r 0 (Some x) xs
      | st # _ \<Rightarrow>
          let n = length (x # xs) - length (snd st)
          in take n (x # xs) # findall_from ic r (n - 1) (Some x) xs)"

definition re_findall :: "bool \<Rightarrow> regex \<Rightarrow> string \<Rightarrow> string list" where
  "re_findall ic r s = findall_from ic r 0 None s"

text \<open>A literal text as a pattern, and a pattern repeated a fixed number of times.\<close>

fun lit :: "string \<Rightarrow> regex" where
  "lit [] = Eps"
| "lit [c] = Lit c"
| "lit (c # d # cs) = Seq (Lit c) (lit (d # cs))"

fun seqs :: "regex list \<Rightarrow> regex" where
  "seqs [] = Eps"
| "seqs [r] = r"
| "seqs (r # q # rs) = Seq r (seqs (q # rs))"

fun alts :: "regex list \<Rightarrow> regex" where
  "alts [] = Eps"
| "alts [r] = r"
| "alts (r # q # rs) = Alt r (alts (q # rs))"

text \<open>\<^verbatim>\<open>int(s)\<close> for a text of decimal digits.\<close>

definition int_of_digits :: "string \<Rightarrow> int" where
  "int_of_digits s = foldl (\<lambda>n c. 10 * n + int (length (takeWhile (\<lambda>d. d \<noteq> c) ''0123456789''))) 0 s"

section \<open>Quality Assessor\<close>

text \<open>
  \<^verbatim>\<open>QualityMetrics\<close>. Scores are Python floats; they are modelled as rationals, so the
  sums below are exact. The six scores are validated on construction (each field is
  declared with \<^verbatim>\<open>ge=0, le=10\<close>): \<open>new_QualityMetrics\<close> is that constructor, with
  \<open>Inl\<close> for the validation error it raises.
\<close>

record QualityMetrics =
  credibility_score :: rat
  relevance_score :: rat
  accuracy_score :: rat
  completeness_score :: rat
  timeliness_score :: rat
  overall_score :: rat
  assessment_notes :: "string list"
  recommendations :: "string list"

definition in_range :: "rat \<Rightarrow> bool" where
  "in_range x = (0 \<le> x \<and> x \<le> 10)"

definition new_QualityMetrics ::
  "rat \<Rightarrow> rat \<Rightarrow> rat \<Rightarrow> rat \<Rightarrow> rat \<Rightarrow> rat \<Rightarrow> string list \<Rightarrow> string list
     \<Rightarrow> string + QualityMetrics" where
  "new_QualityMetrics c r a co t ov notes recs =
     (if in_range c \<and> in_range r \<and> in_range a \<and> in_range co \<and> in_range t \<and> in_range ov
      then Inr \<lparr>credibility_score = c, relevance_score = r, accuracy_score = a,
                completeness_score = co, timeliness_score = t, overall_score = ov,
                assessment_notes = notes, recommendations = recs\<rparr>
      else Inl ''validation error for QualityMetrics'')"

record QualityAssessor =
  assessment_history :: "(string, QualityMetrics) py_dict"

definition new_QualityAssessor :: QualityAssessor where
  "new_QualityAssessor = \<lparr>assessment_history = []\<rparr>"

text \<open>The loops that add a fixed amount for each pattern of a list that is found.\<close>

definition add_per_match :: "rat \<Rightarrow> regex list \<Rightarrow> string \<Rightarrow> rat \<Rightarrow> rat" where
  "add_per_match amount indicators content score =
     foldl (\<lambda>sc indicator. if re_search True indicator content then sc + amount else sc)
       score indicators"

definition clamp_score :: "rat \<Rightarrow> rat" where
  "clamp_score score = min 10 (max 0 score)"

text \<open>\<^verbatim>\<open>_assess_credibility\<close>.\<close>

definition credibility_indicators :: "regex list" where
  "credibility_indicators =
     [seqs [lit ''peer'', Opt AnyChar, lit ''reviewed''], lit ''published in'', lit ''journal'',
      lit ''study shows'', lit ''research indicates'', lit ''according to experts'',
      lit ''data suggests'']"

definition bias_indicators :: "regex list" where
  "bias_indicators =
     [lit ''always'', lit ''never'', lit ''everyone knows'', lit ''obviously'',
      lit ''without a doubt'', lit ''definitely proves'']"

definition assess_credibility :: "string \<Rightarrow> string \<Rightarrow> string \<Rightarrow> rat" where
  "assess_credibility content source_url content_type =
     (let score0 = 5;
          score1 =
            (if source_url \<noteq> [] then
               (if list_ex (\<lambda>domain. contains (lower source_url) domain) [''.edu'', ''.gov'', ''.org'']
                  then score0 + 2
                else if list_ex (\<lambda>domain. contains (lower source_url) domain) [''.com'', ''.net'']
                  then score0 + 1 / 2
                else score0)
             else score0);
          score2 = add_per_match (3 / 10) credibility_indicators content score1;
          score3 = add_per_match (- (2 / 10)) bias_indicators content score2
      in clamp_score score3)"

text \<open>
  \<^verbatim>\<open>_assess_relevance\<close>; \<open>now\<close> is its reading of the clock. \<open>year_pattern\<close> is
  \<^verbatim>\<open>\b(20\d{2})\b\<close>, whose group is the whole match.
\<close>

definition data_pattern :: regex where
  "data_pattern = alts [seqs [Plus Digit, Lit CHR ''%''],
     seqs [Plus Digit, Lit CHR ''.'', Plus Digit],
     lit ''statistics'', lit ''data'', lit ''findings'']"

definition year_pattern :: regex where
  "year_pattern = seqs [WordBoundary, lit ''20'', Digit, Digit, WordBoundary]"

definition word_count :: "string \<Rightarrow> nat" where
  "word_count content = length (split content)"

definition assess_relevance :: "datetime \<Rightarrow> string \<Rightarrow> rat" where
  "assess_relevance now content =
     (let score0 = 5;
          score1 = (if re_search True data_pattern content then score0 + 3 / 2 else score0);
          current_year = int (year now);
          years_mentioned = re_findall False year_pattern content;
          score2 =
            (if years_mentioned \<noteq> [] then
               (let recent_years =
                      filter (\<lambda>y. int_of_digits y \<ge> current_year - 2) years_mentioned
                in if recent_years \<noteq> [] then score1 + 1 else score1)
             else score1);
          score3 = (if word_count content > 500 then score2 + 1
                    else if word_count content < 100 then score2 - 1
                    else score2)
      in clamp_score score3)"

text \<open>\<^verbatim>\<open>_assess_accuracy\<close>.\<close>

definition citation_patterns :: "regex list" where
  "citation_patterns =
     [seqs [Lit CHR ''['', Plus Digit, Lit CHR '']''],
      seqs [Lit CHR ''('', Digit, Digit, Digit, Digit, Lit CHR '')''],
      lit ''et al.'', lit ''according to'', lit ''source:'', lit ''reference:'', lit ''study by'']"

definition factual_indicators :: "regex list" where
  "factual_indicators =
     [lit ''research shows'', lit ''data indicates'', lit ''study found'',
      lit ''analysis reveals'', lit ''evidence suggests'']"

definition assess_accuracy :: "string \<Rightarrow> rat" where
  "assess_accuracy content =
     (let score0 = 6;
          citation_count =
            sum_list (map (\<lambda>pattern. length (re_findall True pattern content)) citation_patterns);
          score1 = (if citation_count > 5 then score0 + 2
                    else if citation_count > 2 then score0 + 1
                    else score0);
          score2 = add_per_match (3 / 10) factual_indicators content score1
      in clamp_score score2)"

text \<open>\<^verbatim>\<open>_assess_completeness\<close>.\<close>

definition structure_indicators :: "regex list" where
  "structure_indicators =
     [lit ''introduction'', lit ''conclusion'', lit ''methodology'', lit ''results'',
      lit ''discussion'', lit ''background'', lit ''summary'']"

definition assess_completeness :: "string \<Rightarrow> rat" where
  "assess_completeness content =
     (let score0 = 5;
          score1 = (if word_count content > 1000 then score0 + 2
                    else if word_count content > 500 then score0 + 1
                    else if word_count content < 100 then score0 - 2
                    else score0);
          structure_count =
            length (filter (\<lambda>indicator. re_search True indicator content) structure_indicators)
      in clamp_score (score1 + of_nat structure_count * (1 / 2)))"

text \<open>\<^verbatim>\<open>_assess_timeliness\<close>; \<open>now\<close> is its reading of the clock.\<close>

definition recent_phrases :: "string list" where
  "recent_phrases = [''recent'', ''latest'', ''current'', ''updated'', ''new'', ''this year'',
     ''recently'', ''now'']"

definition recent_indicators :: "regex list" where
  "recent_indicators = map lit recent_phrases"

definition assess_timeliness :: "datetime \<Rightarrow> string \<Rightarrow> rat" where
  "assess_timeliness now content =
     (let score0 = 5;
          current_year = int (year now);
          dates_found = re_findall False year_pattern content;
          score1 =
            (case map int_of_digits dates_found of
               [] \<Rightarrow> score0
             | y # ys \<Rightarrow>
                 let most_recent_year = foldl max y ys;
                     years_old = current_year - most_recent_year
                 in if years_old \<le> 1 then score0 + 3
                    else if years_old \<le> 3 then score0 + 1
                    else if years_old \<le> 5 then score0 + 0
                    else score0 - 2);
          score2 = add_per_match (2 / 10) recent_indicators content score1
      in clamp_score score2)"

text \<open>\<^verbatim>\<open>_generate_assessment_notes\<close> and \<^verbatim>\<open>_generate_recommendations\<close>.\<close>

definition generate_assessment_notes :: "string \<Rightarrow> string \<Rightarrow> string list" where
  "generate_assessment_notes content source_url =
     (let notes0 = [''Content length: '' @ str_nat (word_count content) @ '' words''];
          notes1 = (if source_url \<noteq> [] then notes0 @ [''Source URL: '' @ source_url]
                    else notes0);
          notes2 = (if re_search False (alts [seqs [Plus Digit, Lit CHR ''%''],
                          seqs [Plus Digit, Lit CHR ''.'', Plus Digit]]) content
                    then notes1 @ [''Contains quantitative data''] else notes1);
          notes3 = (if re_search True (alts [lit ''study'', lit ''research'', lit ''analysis''])
                          content
                    then notes2 @ [''References research or studies''] else notes2);
          citation_count = length (re_findall False
             (alts [seqs [Lit CHR ''['', Plus Digit, Lit CHR '']''],
                    seqs [Lit CHR ''('', Digit, Digit, Digit, Digit, Lit CHR '')'']]) content)
      in if citation_count > 0
         then notes3 @ [''Contains '' @ str_nat citation_count @ '' citations'']
         else notes3)"

definition generate_recommendations :: "rat \<Rightarrow> rat \<Rightarrow> rat \<Rightarrow> rat \<Rightarrow> rat \<Rightarrow> string list" where
  "generate_recommendations credibility relevance accuracy completeness timeliness =
     (let r1 = (if credibility < 6
                then [''Seek more credible sources (academic, government, established organizations)'']
                else []);
          r2 = (if relevance < 6
                then r1 @ [''Focus on more specific and actionable information''] else r1);
          r3 = (if accuracy < 6
                then r2 @ [''Add more citations and references to support claims''] else r2);
          r4 = (if completeness < 6
                then r3 @ [''Expand content with more comprehensive coverage''] else r3);
          r5 = (if timeliness < 6
                then r4 @ [''Update with more recent information and sources''] else r4)
      in if r5 = [] then [''Content meets quality standards''] else r5)"

text \<open>
  \<^verbatim>\<open>_calculate_quality_metrics\<close>. \<open>now_rel\<close> and \<open>now_time\<close> are the clock readings of
  the relevance and the timeliness assessment.
\<close>

definition calculate_quality_metrics ::
  "datetime \<Rightarrow> datetime \<Rightarrow> string \<Rightarrow> string \<Rightarrow> string \<Rightarrow> string + QualityMetrics" where
  "calculate_quality_metrics now_rel now_time content source_url content_type =
     (let credibility = assess_credibility content source_url content_type;
          relevance = assess_relevance now_rel content;
          accuracy = assess_accuracy content;
          completeness = assess_completeness content;
          timeliness = assess_timeliness now_time content;
          overall = (credibility + relevance + accuracy + completeness + timeliness) / 5;
          notes = generate_assessment_notes content source_url;
          recs = generate_recommendations credibility relevance accuracy completeness timeliness
      in new_QualityMetrics credibility relevance accuracy completeness timeliness overall
           notes recs)"

text \<open>
  \<^verbatim>\<open>_generate_assessment_id\<close>: the first 8 hexadecimal digits of the MD5 of the first 100
  characters of the content followed by the source url.
\<close>

definition generate_assessment_id :: "md5_fn \<Rightarrow> string \<Rightarrow> string \<Rightarrow> string" where
  "generate_assessment_id md5 content source_url =
     take 8 (hexdigest (md5 (take 100 content @ source_url)))"

text \<open>
  What the assessor answers. Its reports print scores with \<^verbatim>\<open>:.1f\<close> and the target
  score as Python prints a float; these texts are kept as the values they are rendered
  from: \<open>AssessmentReport\<close> stands for \<^verbatim>\<open>_format_assessment_results(metrics, id)\<close>,
  \<open>HistoryListing\<close> for the lines of id and overall score, \<open>BenchmarkReport\<close> for the
  average, the number of assessments and whether the average reaches 7.0,
  \<open>TargetMet\<close> for \<^verbatim>\<open>Content already meets target quality score of {target}/10\<close> and
  \<open>ImprovementList\<close> for \<^verbatim>\<open>To reach target score of {target}/10:\<close> followed by one
  line \<^verbatim>\<open>- {improvement}\<close> for each entry of the list.
\<close>

datatype assessor_answer =
    Message string
  | AssessmentReport string QualityMetrics
  | HistoryListing "(string \<times> rat) list"
  | BenchmarkReport rat nat bool
  | TargetMet rat
  | ImprovementList rat "string list"

text \<open>
  \<^verbatim>\<open>_assess_content\<close>. A validation error raised while the metrics are built leaves the
  history as it was and is answered by \<^verbatim>\<open>_run\<close>'s handler.
\<close>

definition assess_content ::
  "md5_fn \<Rightarrow> datetime \<Rightarrow> datetime \<Rightarrow> QualityAssessor \<Rightarrow> string \<Rightarrow> string \<Rightarrow> string
     \<Rightarrow> assessor_answer \<times> QualityAssessor" where
  "assess_content md5 now_rel now_time self content source_url content_type =
     (case calculate_quality_metrics now_rel now_time content source_url content_type of
        Inl e \<Rightarrow> (Message (''Error in quality assessor: '' @ e), self)
      | Inr metrics \<Rightarrow>
          let assessment_id = generate_assessment_id md5 content source_url
          in (AssessmentReport assessment_id metrics,
              self\<lparr>assessment_history :=
                     dict_set (assessment_history self) assessment_id metrics\<rparr>))"

text \<open>\<^verbatim>\<open>_get_assessment_history\<close> and \<^verbatim>\<open>_benchmark_against_standards\<close>.\<close>

definition get_assessment_history :: "QualityAssessor \<Rightarrow> assessor_answer" where
  "get_assessment_history self =
     (if assessment_history self = [] then Message ''No assessments performed yet.''
      else HistoryListing (map (\<lambda>(assessment_id, metrics). (assessment_id, overall_score metrics))
             (assessment_history self)))"

definition benchmark_against_standards :: "QualityAssessor \<Rightarrow> string \<Rightarrow> assessor_answer" where
  "benchmark_against_standards self domain =
     (if assessment_history self = [] then Message ''No assessments available for benchmarking.''
      else
        let scores = map overall_score (dict_values (assessment_history self));
            avg_score = sum_list scores / of_nat (length scores)
        in BenchmarkReport avg_score (length scores) (avg_score \<ge> 7))"

text \<open>
  \<^verbatim>\<open>_suggest_improvements\<close>: \<^verbatim>\<open>latest_metrics\<close> is the last value of the history
  dictionary.
\<close>

definition suggest_improvements :: "QualityAssessor \<Rightarrow> rat \<Rightarrow> assessor_answer" where
  "suggest_improvements self target_score =
     (if assessment_history self = []
      then Message ''No assessments available for improvement suggestions.''
      else
        let latest_metrics = last (dict_values (assessment_history self));
            i1 = (if credibility_score latest_metrics < target_score
                  then [''Improve source credibility''] else []);
            i2 = (if relevance_score latest_metrics < target_score
                  then i1 @ [''Enhance content relevance''] else i1);
            i3 = (if accuracy_score latest_metrics < target_score
                  then i2 @ [''Add more supporting evidence''] else i2);
            i4 = (if completeness_score latest_metrics < target_score
                  then i3 @ [''Expand content comprehensiveness''] else i3);
            improvements = (if timeliness_score latest_metrics < target_score
                  then i4 @ [''Update with recent information''] else i4)
        in if improvements = [] then TargetMet target_score
           else ImprovementList target_score improvements)"

text \<open>\<^verbatim>\<open>QualityAssessor._run\<close>: the dispatch on the action.\<close>

definition assessor_run ::
  "md5_fn \<Rightarrow> datetime \<Rightarrow> datetime \<Rightarrow> QualityAssessor \<Rightarrow> string \<Rightarrow> string \<Rightarrow> string \<Rightarrow> string
     \<Rightarrow> rat \<Rightarrow> string \<Rightarrow> assessor_answer \<times> QualityAssessor" where
  "assessor_run md5 now_rel now_time self action content source_url content_type target_score
       domain =
     (if action = ''assess'' then
        (if content = [] then (Message ''Error: Content is required for assessment'', self)
         else assess_content md5 now_rel now_time self content source_url content_type)
      else if action = ''history'' then (get_assessment_history self, self)
      else if action = ''benchmark'' then (benchmark_against_standards self domain, self)
      else if action = ''improve'' then (suggest_improvements self target_score, self)
      else (Message (''Unknown action: '' @ action
              @ ''. Available actions: assess, history, benchmark, improve''), self))"

text \<open>
  The timeliness score as the specification words it, for comparison with
  \<open>assess_timeliness\<close>: base 5.0; the most recent 4-digit year token of the content
  (a maximal run of exactly four digits, read as a year) adds 3.0, 1.0, 0.0 or -2.0 by its
  age; every occurrence of a recency phrase in the content, case ignored, adds 0.2; the
  result is clamped to [0, 10].
\<close>

fun digit_runs_acc :: "string \<Rightarrow> string \<Rightarrow> string list" where
  "digit_runs_acc run [] = (if run = [] then [] else [rev run])"
| "digit_runs_acc run (c # cs) =
     (if is_digit c then digit_runs_acc (c # run) cs
      else if run = [] then digit_runs_acc [] cs
      else rev run # digit_runs_acc [] cs)"

definition year_tokens_spec :: "string \<Rightarrow> int list" where
  "year_tokens_spec content =
     map int_of_digits (filter (\<lambda>t. length t = 4) (digit_runs_acc [] content))"

fun count_occurrences :: "string \<Rightarrow> string \<Rightarrow> nat" where
  "count_occurrences phrase [] = 0"
| "count_occurrences phrase (c # cs) =
     (if is_prefix phrase (c # cs) then 1 else 0) + count_occurrences phrase cs"

definition timeliness_spec :: "datetime \<Rightarrow> string \<Rightarrow> rat" where
  "timeliness_spec now content =
     (let year_part =
            (case year_tokens_spec content of
               [] \<Rightarrow> 0
             | y # ys \<Rightarrow>
                 let years_old = int (year now) - foldl max y ys
                 in if years_old \<le> 1 then 3 else if years_old \<le> 3 then 1
                    else if years_old \<le> 5 then 0 else - 2);
          occurrences =
            sum_list (map (\<lambda>phrase. count_occurrences phrase (lower content)) recent_phrases)
      in clamp_score (5 + year_part + of_nat occurrences * (2 / 10)))"

section \<open>Research workflow\<close>

text \<open>
  Durations. \<open>to_microseconds\<close> places a clock reading on the time line (microseconds
  since the start of year 1, by the proleptic Gregorian calendar), so that the difference
  of two readings is the \<^verbatim>\<open>timedelta\<close> of \<^verbatim>\<open>end - start\<close>; \<open>str_timedelta\<close> is
  \<^verbatim>\<open>str\<close> of a \<^verbatim>\<open>timedelta\<close>, whose days, seconds and microseconds are normalised
  with the seconds and microseconds non-negative.
\<close>

definition is_leap :: "nat \<Rightarrow> bool" where
  "is_leap y = (y mod 4 = 0 \<and> (y mod 100 \<noteq> 0 \<or> y mod 400 = 0))"

definition days_before_year :: "nat \<Rightarrow> int" where
  "days_before_year y =
     (let y1 = int y - 1 in y1 * 365 + y1 div 4 - y1 div 100 + y1 div 400)"

definition days_before_month :: "nat \<Rightarrow> nat \<Rightarrow> int" where
  "days_before_month y m =
     int (sum_list (take (m - 1) [31, 28, 31, 30, 31, 30, 31, 31, 30, 31, 30, 31]))
       + (if m > 2 \<and> is_leap y then 1 else 0)"

definition to_microseconds :: "datetime \<Rightarrow> int" where
  "to_microseconds t =
     ((((days_before_year (year t) + days_before_month (year t) (month t) + int (day t)) * 24
          + int (hour t)) * 60 + int (minute t)) * 60 + int (second t)) * 1000000
       + int (microsecond t)"

definition str_int :: "int \<Rightarrow> string" where
  "str_int i = (if i < 0 then ''-'' @ str_nat (nat (- i)) else str_nat (nat i))"

definition str_timedelta :: "int \<Rightarrow> string" where
  "str_timedelta d =
     (let days = d div 86400000000;
          seconds = nat ((d mod 86400000000) div 1000000);
          microseconds = nat (d mod 1000000);
          mm = seconds div 60;
          ss = seconds mod 60;
          hh = mm div 60;
          s = str_nat hh @ '':'' @ zero_pad 2 (mm mod 60) @ '':'' @ zero_pad 2 ss;
          s1 = (if days \<noteq> 0
                then str_int days @ '' day'' @ (if \<bar>days\<bar> \<noteq> 1 then ''s'' else []) @ '', '' @ s
                else s)
      in if microseconds \<noteq> 0 then s1 @ ''.'' @ zero_pad 6 microseconds else s1)"

text \<open>
  The records the orchestrator builds: the metadata, the result it returns (the success
  record, the record \<^verbatim>\<open>{status: error, error, metadata}\<close> of the handler inside
  \<^verbatim>\<open>_process_workflow_results\<close>, and the record \<^verbatim>\<open>{error, status: failed}\<close> of the
  handler of \<^verbatim>\<open>execute_research_project\<close>), and the workflow state. The state holds
  \<^verbatim>\<open>start_time\<close> and \<^verbatim>\<open>end_time\<close> as the clock readings whose ISO texts the
  dictionary stores and \<^verbatim>\<open>_calculate_duration\<close> parses back (\<open>None\<close>: the key is not
  in the dictionary); \<open>results\<close> is \<open>None\<close> for the empty dictionary.
\<close>

record metadata =
  project_id :: string
  timestamp :: string
  research_query :: string
  output_format :: string
  workflow_duration :: string
  agents_used :: "string list"
  tools_used :: "string list"

datatype project_result =
    Success metadata string string string
  | ProcessingError string metadata
  | Failed string

record workflow_state =
  status :: string
  current_task :: "string option"
  completed_tasks :: "string list"
  results :: "project_result option"
  errors :: "string list"
  start_time :: "datetime option"
  end_time :: "datetime option"

definition new_workflow_state :: workflow_state where
  "new_workflow_state = \<lparr>status = ''initialized'', current_task = None, completed_tasks = [],
     results = None, errors = [], start_time = None, end_time = None\<rparr>"

text \<open>
  The summary file: what \<^verbatim>\<open>json.dump\<close> is given. A file that was opened for writing
  and not written to the end is \<open>Incomplete\<close>.
\<close>

record workflow_summary =
  summary_metadata :: metadata
  summary_workflow_state :: workflow_state
  final_output_preview :: string

datatype file_content = Incomplete | Written workflow_summary

type_synonym file_system = "string \<rightharpoonup> file_content"

text \<open>
  What the collaborators of one call do: the clock readings in the order they are taken,
  and for each step that can raise (building the tasks, constructing the crew, running
  it, opening the summary file, writing it) either the message of the exception
  (\<open>Inl\<close>) or its result. The result of the run has an attribute \<^verbatim>\<open>raw\<close> or not, and
  a text \<^verbatim>\<open>str(result)\<close>.
\<close>

record crew_output =
  raw :: "string option"
  as_str :: string

record collaborators =
  now_start :: datetime
  create_tasks_outcome :: "string + unit"
  crew_outcome :: "string + unit"
  kickoff_outcome :: "string + crew_output"
  now_project_id :: datetime
  now_timestamp :: datetime
  open_outcome :: "string + unit"
  dump_outcome :: "string + unit"
  now_end :: datetime

text \<open>\<^verbatim>\<open>_generate_project_id\<close> and \<^verbatim>\<open>_calculate_duration\<close>.\<close>

definition generate_project_id :: "md5_fn \<Rightarrow> datetime \<Rightarrow> string \<Rightarrow> string" where
  "generate_project_id md5 now query =
     ''research_'' @ strftime_Ymd now @ ''_'' @ take 8 (hexdigest (md5 query))"

definition calculate_duration :: "workflow_state \<Rightarrow> string" where
  "calculate_duration self =
     (case (start_time self, end_time self) of
        (Some start, Some end') \<Rightarrow> str_timedelta (to_microseconds end' - to_microseconds start)
      | _ \<Rightarrow> ''unknown'')"

text \<open>\<^verbatim>\<open>os.path.join\<close> of the output directory and a relative file name.\<close>

definition path_join :: "string \<Rightarrow> string \<Rightarrow> string" where
  "path_join dir name =
     (if dir = [] then name else if last dir = CHR ''/'' then dir @ name else dir @ ''/'' @ name)"

text \<open>
  \<^verbatim>\<open>_process_workflow_results\<close>. Its handler catches what is raised from the extraction
  of the final output to the writing of the summary.
\<close>

definition process_workflow_results ::
  "md5_fn \<Rightarrow> string \<Rightarrow> collaborators \<Rightarrow> workflow_state \<Rightarrow> file_system \<Rightarrow> crew_output \<Rightarrow> string
     \<Rightarrow> string \<Rightarrow> project_result \<times> file_system" where
  "process_workflow_results md5 output_dir env self files crew_result query fmt =
     (let pid = generate_project_id md5 (now_project_id env) query;
          stamp = strftime_Ymd_HMS (now_timestamp env);
          md = \<lparr>project_id = pid, timestamp = stamp, research_query = query,
                 output_format = fmt, workflow_duration = calculate_duration self,
                 agents_used = [''research_agent'', ''analysis_agent'', ''content_agent''],
                 tools_used = [''serper_search'', ''citation_manager'', ''quality_assessor'',
                   ''file_operations'']\<rparr>;
          final_output = (case raw crew_result of Some r \<Rightarrow> r | None \<Rightarrow> as_str crew_result);
          summary_filename = ''workflow_summary_'' @ stamp @ ''.json'';
          summary_path = path_join output_dir summary_filename;
          summary = \<lparr>summary_metadata = md, summary_workflow_state = self,
                      final_output_preview =
                        (if length final_output > 500 then take 500 final_output @ ''...''
                         else final_output)\<rparr>
      in case open_outcome env of
           Inl e \<Rightarrow> (ProcessingError e md, files)
         | Inr f \<Rightarrow>
             (case dump_outcome env of
                Inl e \<Rightarrow> (ProcessingError e md, files(summary_path \<mapsto> Incomplete))
              | Inr u \<Rightarrow>
                  (Success md final_output summary_path output_dir,
                   files(summary_path \<mapsto> Written summary))))"

text \<open>
  \<^verbatim>\<open>execute_research_project\<close>. \<open>on_exception\<close> is its \<^verbatim>\<open>except\<close> branch; the state
  it sees already has the status \<^verbatim>\<open>running\<close> and the new start time.
\<close>

definition on_exception ::
  "string \<Rightarrow> workflow_state \<Rightarrow> file_system \<Rightarrow> project_result \<times> workflow_state \<times> file_system" where
  "on_exception e self files =
     (Failed e, self\<lparr>status := ''error'', errors := errors self @ [e]\<rparr>, files)"

definition execute_research_project ::
  "md5_fn \<Rightarrow> string \<Rightarrow> collaborators \<Rightarrow> workflow_state \<Rightarrow> file_system \<Rightarrow> string \<Rightarrow> string
     \<Rightarrow> string \<Rightarrow> string \<Rightarrow> project_result \<times> workflow_state \<times> file_system" where
  "execute_research_project md5 output_dir env self files query fmt audience depth =
     (let self1 = self\<lparr>status := ''running'', start_time := Some (now_start env)\<rparr>
      in case create_tasks_outcome env of
           Inl e \<Rightarrow> on_exception e self1 files
         | Inr tasks \<Rightarrow>
             (case crew_outcome env of
                Inl e \<Rightarrow> on_exception e self1 files
              | Inr crew \<Rightarrow>
                  (case kickoff_outcome env of
                     Inl e \<Rightarrow> on_exception e self1 files
                   | Inr result \<Rightarrow>
                       let (final_results, files') =
                             process_workflow_results md5 output_dir env self1 files result
                               query fmt
                       in (final_results,
                           self1\<lparr>status := ''completed'', end_time := Some (now_end env),
                                  results := Some final_results\<rparr>,
                           files'))))"

text \<open>
  Example runs, used to evaluate the orchestrator: clock readings on 4 November 2026, and
  the collaborators of a call in which every step succeeds and the run returns the text
  \<^verbatim>\<open>report\<close>.
\<close>

definition clock_at :: "nat \<Rightarrow> nat \<Rightarrow> datetime" where
  "clock_at h m = \<lparr>year = 2026, month = 11, day = 4, hour = h, minute = m, second = 0,
     microsecond = 0\<rparr>"

definition all_succeed :: "datetime \<Rightarrow> datetime \<Rightarrow> collaborators" where
  "all_succeed t_start t_end =
     \<lparr>now_start = t_start, create_tasks_outcome = Inr (), crew_outcome = Inr (),
      kickoff_outcome = Inr \<lparr>raw = Some ''report'', as_str = ''report''\<rparr>,
      now_project_id = t_end, now_timestamp = t_end, open_outcome = Inr (),
      dump_outcome = Inr (), now_end = t_end\<rparr>"

section \<open>Properties of the validator\<close>

lemma strip_Nil: "strip [] = []"
  by (simp add: strip_def)

lemma error_messages_distinct:
  "distinct [query_error, format_error, audience_error, depth_error]"
  by (simp add: query_error_def format_error_def audience_error_def depth_error_def)

lemma enumeration_sizes:
  "length list_available_formats = 5 \<and> distinct list_available_formats \<and>
   length list_target_audiences = 5 \<and> distinct list_target_audiences \<and>
   length list_depth_levels = 4 \<and> distinct list_depth_levels"
  by (simp add: list_available_formats_def list_target_audiences_def list_depth_levels_def)

text \<open>
  Claim C2. For every query, format, audience and depth (the orchestrator having been
  constructed), \<^verbatim>\<open>validate_inputs\<close> returns a record whose \<open>errors\<close> list holds, in the
  order of the checks, one message for each violated rule and nothing else: the query
  message when the trimmed query is shorter than 10 characters, and the format, audience
  and depth messages when the value is not in its enumeration. The four messages are
  pairwise different, so the number of entries is the number of violations and no entry
  repeats; \<open>valid\<close> is true exactly when the list is empty, that is exactly when the
  trimmed query has at least 10 characters and the three values are members of their
  enumerations, which have 5, 5 and 4 distinct members.
\<close>

theorem C2_validate_inputs_collects_all_violations:
  "\<exists>r. validate_inputs (Inr ()) q f a d = Inr r
     \<and> validation.errors r = map snd (filter fst
          [(length (strip q) < 10, query_error),
           (f \<notin> set list_available_formats, format_error),
           (a \<notin> set list_target_audiences, audience_error),
           (d \<notin> set list_depth_levels, depth_error)])
     \<and> distinct (validation.errors r)
     \<and> length (validation.errors r) = length (filter id
          [length (strip q) < 10, f \<notin> set list_available_formats,
           a \<notin> set list_target_audiences, d \<notin> set list_depth_levels])
     \<and> (validation.valid r \<longleftrightarrow> validation.errors r = [])
     \<and> (validation.valid r \<longleftrightarrow> 10 \<le> length (strip q) \<and> f \<in> set list_available_formats
           \<and> a \<in> set list_target_audiences \<and> d \<in> set list_depth_levels)
     \<and> length list_available_formats = 5 \<and> distinct list_available_formats
     \<and> length list_target_audiences = 5 \<and> distinct list_target_audiences
     \<and> length list_depth_levels = 4 \<and> distinct list_depth_levels"
proof -
  have q: "(q = [] \<or> length (strip q) < 10) \<longleftrightarrow> length (strip q) < 10"
    using strip_Nil by auto
  have ne: "query_error \<noteq> format_error" "query_error \<noteq> audience_error"
    "query_error \<noteq> depth_error" "format_error \<noteq> audience_error"
    "format_error \<noteq> depth_error" "audience_error \<noteq> depth_error"
    using error_messages_distinct by simp_all
  note ne' = ne ne [symmetric]
  show ?thesis
    using enumeration_sizes
    by (simp add: validate_inputs_def q Let_def ne')
qed

section \<open>Properties of the citation manager\<close>

subsection \<open>Ids, dictionaries and strings\<close>

lemma length_hex_digits: "length (hex_digits k n) = k"
  by (induction k arbitrary: n) auto

lemma length_hexdigest: "length (hexdigest w) = 32"
  by (simp add: hexdigest_def length_hex_digits)

lemma hex_digits_add: "hex_digits (a + b) n = hex_digits a (n div 16 ^ b) @ hex_digits b n"
proof (induction b arbitrary: n)
  case 0
  then show ?case by simp
next
  case (Suc b)
  have "n div 16 div 16 ^ b = n div (16 * 16 ^ b)"
    by (simp add: div_mult2_eq)
  with Suc [of "n div 16"] show ?case by simp
qed

lemma take8_hexdigest: "take 8 (hexdigest w) = hex_digits 8 (unat w div 16 ^ 24)"
  using hex_digits_add [of 8 24 "unat w"] by (simp add: hexdigest_def length_hex_digits)

lemma hex_digits_8:
  "hex_digits 8 n = [hex_char (n div 268435456), hex_char (n div 16777216),
     hex_char (n div 1048576), hex_char (n div 65536), hex_char (n div 4096),
     hex_char (n div 256), hex_char (n div 16), hex_char n]"
proof -
  have e: "(8::nat) = Suc (Suc (Suc (Suc (Suc (Suc (Suc (Suc 0)))))))" by simp
  show ?thesis
    unfolding e by (simp add: div_mult2_eq [symmetric])
qed

lemma generate_citation_id_nonempty: "generate_citation_id md5 now t u \<noteq> []"
  using length_hexdigest [of "md5 (t @ u @ isoformat now)"]
  by (auto simp: generate_citation_id_def)

lemma dict_get_dict_set_same: "dict_get (dict_set d k v) k = Some v"
  by (induction d) (auto simp: dict_get_def)

lemma join_butlast_concat:
  "xs \<noteq> [] \<Longrightarrow> join sep xs @ sep = concat (map (\<lambda>x. x @ sep) xs)"
  by (induction sep xs rule: join.induct) auto

lemma is_prefix_refl: "is_prefix x x"
  by (induction x) auto

lemma contains_refl: "contains x x"
  by (cases x) (auto simp: is_prefix_refl)

lemma contains_append: "contains (xs @ ys) ys"
  by (induction xs) (auto simp: contains_refl)

lemma is_prefix_set: "is_prefix x s \<Longrightarrow> set x \<subseteq> set s"
  by (induction x s rule: is_prefix.induct) auto

lemma contains_set: "contains s x \<Longrightarrow> set x \<subseteq> set s"
proof (induction s)
  case Nil
  then show ?case by simp
next
  case (Cons c cs)
  from Cons.prems have "is_prefix x (c # cs) \<or> contains cs x" by simp
  then show ?case
  proof
    assume "is_prefix x (c # cs)"
    then show ?thesis by (rule is_prefix_set)
  next
    assume "contains cs x"
    then have "set x \<subseteq> set cs" by (rule Cons.IH)
    then show ?thesis by auto
  qed
qed

lemma digit_char_is_digit: "is_digit (digit_char d)"
  unfolding digit_char_def is_digit_def by (rule nth_mem) simp

lemma str_nat_digits: "c \<in> set (str_nat n) \<Longrightarrow> is_digit c"
proof (induction n rule: str_nat.induct)
  case (1 n)
  show ?case
  proof (cases "n < 10")
    case True
    with "1.prems" have "c = digit_char n" by (simp add: str_nat.simps [of n])
    then show ?thesis by (simp add: digit_char_is_digit)
  next
    case False
    with "1.prems" have "c \<in> set (str_nat (n div 10)) \<or> c = digit_char n"
      by (auto simp: str_nat.simps [of n])
    then show ?thesis using "1.IH" False by (auto simp: digit_char_is_digit)
  qed
qed

lemma zero_pad_digits: "c \<in> set (zero_pad w n) \<Longrightarrow> is_digit c"
proof -
  assume "c \<in> set (zero_pad w n)"
  then have "c = CHR ''0'' \<or> c \<in> set (str_nat n)"
    by (auto simp: zero_pad_def split: if_splits)
  moreover have "is_digit CHR ''0''" by (simp add: is_digit_def)
  ultimately show ?thesis using str_nat_digits by blast
qed

lemma strftime_Y_m_d_chars: "c \<in> set (strftime_Y_m_d t) \<Longrightarrow> is_digit c \<or> c = CHR ''-''"
  by (auto simp: strftime_Y_m_d_def dest: zero_pad_digits)

lemma add_citation_stores:
  assumes "title' \<noteq> []"
  shows "add_citation md5 t1 t2 self title' url' authors' kw =
     (''Citation added successfully with ID: '' @ generate_citation_id md5 t1 title' (if url' = [] then no_url else url'),
      self\<lparr>citations := dict_set (citations self)
        (generate_citation_id md5 t1 title' (if url' = [] then no_url else url'))
        \<lparr>title = title', authors = authors', url = (if url' = [] then no_url else url'),
         date_accessed = strftime_Y_m_d t2,
         source_type = (case kw_source_type kw of None \<Rightarrow> ''web'' | Some t \<Rightarrow> t),
         publication_date = kw_publication_date kw, publisher = kw_publisher kw, doi = kw_doi kw,
         citation_id = generate_citation_id md5 t1 title' (if url' = [] then no_url else url')\<rparr>\<rparr>)"
  using assms by (simp add: add_citation_def Let_def)


lemma upper_style_names: "upper ''APA'' = ''APA''"
  by (simp add: upper_def upper_char_def ascii_lower_def ascii_upper_def latin_lower_def
      latin_upper_def)

lemma format_citation_found:
  assumes "cid \<noteq> []" and "dict_get (citations self) cid = Some c"
  shows "format_citation self cid style =
     (if upper style = ''APA'' then format_apa c
      else if upper style = ''MLA'' then format_mla c
      else if upper style = ''CHICAGO'' then format_chicago c
      else ''Unsupported citation style: '' @ style @ ''. Supported styles: APA, MLA, Chicago'')"
  using assms by (simp add: format_citation_def)

lemma capital_N_not_in_date: "CHR ''N'' \<notin> set (strftime_Y_m_d t)"
proof
  assume "CHR ''N'' \<in> set (strftime_Y_m_d t)"
  then have "is_digit CHR ''N'' \<or> CHR ''N'' = CHR ''-''" by (rule strftime_Y_m_d_chars)
  then show False by (simp add: is_digit_def)
qed


lemma upper_mla: "upper ''mla'' = ''MLA''"
  by (simp add: upper_def upper_char_def ascii_lower_def ascii_upper_def latin_lower_def
      latin_upper_def)

lemma citation_id_zero_digest: "generate_citation_id (\<lambda>s. 0) t x y = ''00000000''"
proof -
  have "generate_citation_id (\<lambda>s. 0) t x y = hex_digits 8 (unat (0 :: 128 word) div 16 ^ 24)"
    by (simp only: generate_citation_id_def take8_hexdigest)
  also have "\<dots> = ''00000000''"
    by (simp add: hex_digits_8 hex_char_def)
  finally show ?thesis .
qed


text \<open>
  Claim C4. A citation added with a non-empty title and an empty url is stored under the
  returned id with the sentinel \<^verbatim>\<open>No URL provided\<close> as its url. Formatting it, in any
  spelling of APA, MLA or Chicago, gives the text the style builds before its url part
  (\<open>apa_body\<close>, \<open>mla_body\<close>, \<open>chicago_body\<close>) and nothing after it, and that text
  does not depend on the url field; so the sentinel is never written where the url goes.
  And for \<^verbatim>\<open>add("T", "http://x.edu")\<close>, with no authors and no further fields, on any
  store, the APA text contains \<^verbatim>\<open>Retrieved from http://x.edu\<close> and does not contain
  \<^verbatim>\<open>No URL provided\<close>.
\<close>

theorem C4_sentinel_url_stored_and_suppressed:
  assumes "title' \<noteq> []"
  shows "(\<exists>c self'.
            add_citation md5 t1 t2 self title' [] authors' kw =
              (''Citation added successfully with ID: '' @ generate_citation_id md5 t1 title' no_url, self')
          \<and> dict_get (citations self') (generate_citation_id md5 t1 title' no_url) = Some c
          \<and> url c = ''No URL provided''
          \<and> format_citation self' (generate_citation_id md5 t1 title' no_url) style =
               (if upper style = ''APA'' then apa_body c
                else if upper style = ''MLA'' then mla_body c
                else if upper style = ''CHICAGO'' then chicago_body c
                else ''Unsupported citation style: '' @ style @ ''. Supported styles: APA, MLA, Chicago'')
          \<and> (\<forall>u. apa_body (c\<lparr>url := u\<rparr>) = apa_body c \<and> mla_body (c\<lparr>url := u\<rparr>) = mla_body c
                 \<and> chicago_body (c\<lparr>url := u\<rparr>) = chicago_body c))
       \<and> (\<exists>self' out.
            add_citation md5 t1 t2 self ''T'' ''http://x.edu'' [] no_kwargs =
              (''Citation added successfully with ID: '' @ generate_citation_id md5 t1 ''T'' ''http://x.edu'', self')
          \<and> format_citation self' (generate_citation_id md5 t1 ''T'' ''http://x.edu'') ''APA'' = out
          \<and> contains out ''Retrieved from http://x.edu''
          \<and> \<not> contains out ''No URL provided'')"
proof (rule conjI)
  let ?cid = "generate_citation_id md5 t1 title' no_url"
  let ?c = "\<lparr>title = title', authors = authors', url = no_url,
         date_accessed = strftime_Y_m_d t2,
         source_type = (case kw_source_type kw of None \<Rightarrow> ''web'' | Some t \<Rightarrow> t),
         publication_date = kw_publication_date kw, publisher = kw_publisher kw, doi = kw_doi kw,
         citation_id = ?cid\<rparr>"
  let ?self' = "self\<lparr>citations := dict_set (citations self) ?cid ?c\<rparr>"
  have add: "add_citation md5 t1 t2 self title' [] authors' kw =
      (''Citation added successfully with ID: '' @ ?cid, ?self')"
    using add_citation_stores [OF assms, of md5 t1 t2 self "[]" authors' kw] by simp
  have get: "dict_get (citations ?self') ?cid = Some ?c"
    by (simp add: dict_get_dict_set_same)
  have ne: "?cid \<noteq> []" by (rule generate_citation_id_nonempty)
  have fmt: "format_citation ?self' ?cid style =
               (if upper style = ''APA'' then apa_body ?c
                else if upper style = ''MLA'' then mla_body ?c
                else if upper style = ''CHICAGO'' then chicago_body ?c
                else ''Unsupported citation style: '' @ style @ ''. Supported styles: APA, MLA, Chicago'')"
    unfolding format_citation_found [OF ne get]
    by (simp add: format_apa_def format_mla_def format_chicago_def)
  have bodies: "\<forall>u. apa_body (?c\<lparr>url := u\<rparr>) = apa_body ?c \<and> mla_body (?c\<lparr>url := u\<rparr>) = mla_body ?c
                 \<and> chicago_body (?c\<lparr>url := u\<rparr>) = chicago_body ?c"
    by (simp add: apa_body_def mla_body_def chicago_body_def)
  have u: "url ?c = ''No URL provided''" by (simp add: no_url_def)
  show "\<exists>c self'.
            add_citation md5 t1 t2 self title' [] authors' kw =
              (''Citation added successfully with ID: '' @ ?cid, self')
          \<and> dict_get (citations self') ?cid = Some c
          \<and> url c = ''No URL provided''
          \<and> format_citation self' ?cid style =
               (if upper style = ''APA'' then apa_body c
                else if upper style = ''MLA'' then mla_body c
                else if upper style = ''CHICAGO'' then chicago_body c
                else ''Unsupported citation style: '' @ style @ ''. Supported styles: APA, MLA, Chicago'')
          \<and> (\<forall>u. apa_body (c\<lparr>url := u\<rparr>) = apa_body c \<and> mla_body (c\<lparr>url := u\<rparr>) = mla_body c
                 \<and> chicago_body (c\<lparr>url := u\<rparr>) = chicago_body c)"
    using add get u fmt bodies by blast
next
  let ?cid = "generate_citation_id md5 t1 ''T'' ''http://x.edu''"
  let ?c = "\<lparr>title = ''T'', authors = [], url = ''http://x.edu'',
         date_accessed = strftime_Y_m_d t2, source_type = ''web'',
         publication_date = None, publisher = None, doi = None, citation_id = ?cid\<rparr>"
  let ?self' = "self\<lparr>citations := dict_set (citations self) ?cid ?c\<rparr>"
  let ?out = "''Unknown Author. ('' @ strftime_Y_m_d t2 @ ''). T. '' @ ''Retrieved from http://x.edu''"
  have add: "add_citation md5 t1 t2 self ''T'' ''http://x.edu'' [] no_kwargs =
      (''Citation added successfully with ID: '' @ ?cid, ?self')"
    using add_citation_stores [of "''T''" md5 t1 t2 self "''http://x.edu''" "[]" no_kwargs]
    by (simp add: no_kwargs_def)
  have get: "dict_get (citations ?self') ?cid = Some ?c"
    by (simp add: dict_get_dict_set_same)
  have ne: "?cid \<noteq> []" by (rule generate_citation_id_nonempty)
  have fmt: "format_citation ?self' ?cid ''APA'' = ?out"
    unfolding format_citation_found [OF ne get]
    by (simp add: upper_style_names format_apa_def apa_body_def or_else_def no_url_def)
  have c1: "contains ?out ''Retrieved from http://x.edu''"
    using contains_append [of "''Unknown Author. ('' @ strftime_Y_m_d t2 @ ''). T. ''"
        "''Retrieved from http://x.edu''"] by simp
  have c2: "\<not> contains ?out ''No URL provided''"
  proof
    assume "contains ?out ''No URL provided''"
    then have "set ''No URL provided'' \<subseteq> set ?out" by (rule contains_set)
    then have "CHR ''N'' \<in> set ?out" by simp
    then have "CHR ''N'' \<in> set (strftime_Y_m_d t2)" by simp
    then show False using capital_N_not_in_date by blast
  qed
  show "\<exists>self' out.
            add_citation md5 t1 t2 self ''T'' ''http://x.edu'' [] no_kwargs =
              (''Citation added successfully with ID: '' @ ?cid, self')
          \<and> format_citation self' ?cid ''APA'' = out
          \<and> contains out ''Retrieved from http://x.edu''
          \<and> \<not> contains out ''No URL provided''"
    using add fmt c1 c2 by blast
qed
theorem C4_sentinel_url_witness:
  "''T'' \<noteq> [] \<and>
   (\<exists>c self'.
      add_citation (\<lambda>s. 0) \<lparr>year = 2026, month = 11, day = 4, hour = 9, minute = 5, second = 0,
          microsecond = 12\<rparr> \<lparr>year = 2026, month = 11, day = 4, hour = 9, minute = 5, second = 0,
          microsecond = 12\<rparr> new_CitationManager ''T'' [] [] no_kwargs =
        (''Citation added successfully with ID: 00000000'', self')
      \<and> dict_get (citations self') ''00000000'' = Some c
      \<and> url c = ''No URL provided''
      \<and> format_citation self' ''00000000'' ''mla'' = mla_body c)"
proof -
  have h: "''T'' \<noteq> []" by simp
  show ?thesis
    using C4_sentinel_url_stored_and_suppressed [OF h, of "\<lambda>s. 0"
        "\<lparr>year = 2026, month = 11, day = 4, hour = 9, minute = 5, second = 0, microsecond = 12\<rparr>"
        "\<lparr>year = 2026, month = 11, day = 4, hour = 9, minute = 5, second = 0, microsecond = 12\<rparr>"
        new_CitationManager "[]" no_kwargs "''mla''"]
    by (simp add: citation_id_zero_digest upper_mla) blast
qed


text \<open>
  Claim C5. For every citation, the APA text starts with the authors: \<^verbatim>\<open>Unknown Author\<close>
  for an empty list, the single author as given, two authors joined by \<^verbatim>\<open> & \<close>, and for
  three or more each author but the last followed by a comma and a space, then \<^verbatim>\<open>& \<close>
  and the last author. The date between the parentheses is \<^verbatim>\<open>publication_date\<close> when
  the citation has one (a value that is not the empty string), and \<^verbatim>\<open>date_accessed\<close>
  otherwise. Title, publisher and url follow.
\<close>

theorem C5_format_apa_authors_and_date:
  "format_apa c =
     (case authors c of
        [] \<Rightarrow> ''Unknown Author''
      | [a] \<Rightarrow> a
      | [a, b] \<Rightarrow> a @ '' & '' @ b
      | a # b # d # rest \<Rightarrow> concat (map (\<lambda>x. x @ '', '') (butlast (authors c))) @ ''& '' @ last (authors c))
     @ ''. (''
     @ (case publication_date c of
          None \<Rightarrow> date_accessed c
        | Some p \<Rightarrow> if p = [] then date_accessed c else p)
     @ ''). '' @ title c @ ''. ''
     @ (case publisher c of None \<Rightarrow> [] | Some p \<Rightarrow> if p = [] then [] else p @ ''. '')
     @ (if url c = [] \<or> url c = no_url then [] else ''Retrieved from '' @ url c)"
proof -
  have three: "join '', '' (butlast xs) @ '', & '' @ last xs
      = concat (map (\<lambda>x. x @ '', '') (butlast xs)) @ ''& '' @ last xs"
    if "length xs \<ge> 3" for xs :: "string list"
  proof -
    from that have "butlast xs \<noteq> []" by (cases xs rule: rev_cases) auto
    then have "join '', '' (butlast xs) @ '', '' = concat (map (\<lambda>x. x @ '', '') (butlast xs))"
      by (rule join_butlast_concat)
    then show ?thesis by (metis append_assoc append_Cons append_Nil)
  qed
  show ?thesis
  proof (cases "authors c")
    case Nil
    then show ?thesis
      by (simp add: format_apa_def apa_body_def or_else_def Let_def split: option.splits)
  next
    case (Cons a as)
    note A = this
    show ?thesis
    proof (cases as)
      case Nil
      with A show ?thesis
        by (simp add: format_apa_def apa_body_def or_else_def Let_def split: option.splits)
    next
      case (Cons b bs)
      note B = this
      show ?thesis
      proof (cases bs)
        case Nil
        with A B show ?thesis
          by (simp add: format_apa_def apa_body_def or_else_def Let_def split: option.splits)
      next
        case (Cons d rest)
        with A B have len: "length (authors c) \<ge> 3" by simp
        from A B Cons have ne: "authors c \<noteq> []" "length (authors c) \<noteq> 1" "length (authors c) \<noteq> 2"
          by simp_all
        have au: "authors c = a # b # d # rest" using A B Cons by simp
        show ?thesis
          using three [OF len] ne
          apply (simp add: format_apa_def apa_body_def or_else_def Let_def split: option.splits)
          apply (simp add: au)
          done
      qed
    qed
  qed
qed
lemma example_store:
  "add_citation (\<lambda>s. 0) \<lparr>year = 2026, month = 11, day = 4, hour = 9, minute = 5, second = 0,
          microsecond = 12\<rparr> \<lparr>year = 2026, month = 11, day = 4, hour = 9, minute = 5, second = 0,
          microsecond = 12\<rparr> new_CitationManager ''T'' ''http://x.edu'' [] no_kwargs =
     (''Citation added successfully with ID: 00000000'',
      \<lparr>citations = [(''00000000'', \<lparr>title = ''T'', authors = [], url = ''http://x.edu'',
          date_accessed = ''2026-11-04'', source_type = ''web'', publication_date = None,
          publisher = None, doi = None, citation_id = ''00000000''\<rparr>)],
       citation_usage = []\<rparr>)"
proof -
  have d: "strftime_Y_m_d \<lparr>year = 2026, month = 11, day = 4, hour = 9, minute = 5, second = 0,
          microsecond = 12\<rparr> = ''2026-11-04''"
    by code_simp
  show ?thesis
    by (simp add: add_citation_def citation_id_zero_digest d new_CitationManager_def no_kwargs_def
        Let_def)
qed


text \<open>
  Claim C6, evaluated where the code departs from it. The store holds one citation, with
  id \<^verbatim>\<open>00000000\<close>. Usage tracking with the unknown id \<^verbatim>\<open>deadbeef\<close> answers
  \<^verbatim>\<open>Citation with ID deadbeef not found\<close> and lists no stored id, while formatting with
  the same id on the same store lists them.
\<close>

theorem C6_track_usage_unknown_id_omits_stored_ids:
  "(let self1 = snd (add_citation (\<lambda>s. 0) \<lparr>year = 2026, month = 11, day = 4, hour = 9,
          minute = 5, second = 0, microsecond = 12\<rparr> \<lparr>year = 2026, month = 11, day = 4, hour = 9,
          minute = 5, second = 0, microsecond = 12\<rparr> new_CitationManager ''T'' ''http://x.edu'' []
          no_kwargs)
    in dict_keys (citations self1) = [''00000000'']
       \<and> track_usage self1 ''deadbeef'' = (''Citation with ID deadbeef not found'', self1)
       \<and> \<not> contains (fst (track_usage self1 ''deadbeef'')) ''00000000''
       \<and> format_citation self1 ''deadbeef'' ''APA''
           = ''Citation with ID deadbeef not found. Available IDs: ['00000000']'')"
  by (simp add: example_store track_usage_def format_citation_def dict_get_def dict_keys_def
      repr_list_def repr_str_def)

section \<open>Properties of the quality assessor\<close>

lemma clamp_score_in_range: "in_range (clamp_score x)"
  by (simp add: in_range_def clamp_score_def)

lemma assess_credibility_in_range: "in_range (assess_credibility content source_url content_type)"
  by (simp add: assess_credibility_def Let_def clamp_score_in_range)

lemma assess_relevance_in_range: "in_range (assess_relevance now content)"
  by (simp add: assess_relevance_def Let_def clamp_score_in_range)

lemma assess_accuracy_in_range: "in_range (assess_accuracy content)"
  by (simp add: assess_accuracy_def Let_def clamp_score_in_range)

lemma assess_completeness_in_range: "in_range (assess_completeness content)"
  by (simp add: assess_completeness_def Let_def clamp_score_in_range)

lemma assess_timeliness_in_range: "in_range (assess_timeliness now content)"
  by (simp add: assess_timeliness_def Let_def clamp_score_in_range)

lemma mean_in_range:
  assumes "in_range a" "in_range b" "in_range c" "in_range d" "in_range e"
  shows "in_range ((a + b + c + d + e) / 5)"
  using assms by (simp add: in_range_def)

lemma calculate_quality_metrics_result:
  "calculate_quality_metrics now_rel now_time content source_url content_type =
     Inr \<lparr>credibility_score = assess_credibility content source_url content_type,
          relevance_score = assess_relevance now_rel content,
          accuracy_score = assess_accuracy content,
          completeness_score = assess_completeness content,
          timeliness_score = assess_timeliness now_time content,
          overall_score = (assess_credibility content source_url content_type
             + assess_relevance now_rel content + assess_accuracy content
             + assess_completeness content + assess_timeliness now_time content) / 5,
          assessment_notes = generate_assessment_notes content source_url,
          recommendations = generate_recommendations
             (assess_credibility content source_url content_type)
             (assess_relevance now_rel content) (assess_accuracy content)
             (assess_completeness content) (assess_timeliness now_time content)\<rparr>"
  using mean_in_range [OF assess_credibility_in_range [of content source_url content_type]
      assess_relevance_in_range [of now_rel content] assess_accuracy_in_range [of content]
      assess_completeness_in_range [of content] assess_timeliness_in_range [of now_time content]]
  by (simp add: calculate_quality_metrics_def new_QualityMetrics_def Let_def
      assess_credibility_in_range assess_relevance_in_range assess_accuracy_in_range
      assess_completeness_in_range assess_timeliness_in_range)



subsection \<open>Timeliness\<close>

lemma rmatch_lit:
  "(rmatch True (lit p) (prev, s) \<noteq> []) = is_prefix (lower p) (lower s)"
proof (induction p arbitrary: prev s rule: lit.induct)
  case 1
  then show ?case by (simp add: lower_def)
next
  case (2 c)
  then show ?case
    by (cases s) (auto simp: lower_def one_char_def char_eq_def)
next
  case (3 c d cs)
  show ?case
  proof (cases s)
    case Nil
    then show ?thesis by (simp add: lower_def one_char_def)
  next
    case (Cons x xs)
    show ?thesis
    proof (cases "lower_char x = lower_char c")
      case True
      have "(rmatch True (lit (c # d # cs)) (prev, s) \<noteq> [])
            = (rmatch True (lit (d # cs)) (Some x, xs) \<noteq> [])"
        using Cons True by (simp add: one_char_def char_eq_def)
      also have "\<dots> = is_prefix (lower (d # cs)) (lower xs)" by (rule 3)
      also have "\<dots> = is_prefix (lower (c # d # cs)) (lower s)"
        using Cons True by (simp add: lower_def)
      finally show ?thesis .
    next
      case False
      then show ?thesis using Cons by (auto simp: one_char_def char_eq_def lower_def)
    qed
  qed
qed

lemma search_from_lit:
  "search_from True (lit p) prev s = contains (lower s) (lower p)"
proof (induction s arbitrary: prev)
  case Nil
  have "(rmatch True (lit p) (prev, []) \<noteq> []) = is_prefix (lower p) (lower [])"
    by (rule rmatch_lit)
  then show ?case by (cases p) (simp_all add: lower_def)
next
  case (Cons x xs)
  have "(rmatch True (lit p) (prev, x # xs) \<noteq> []) = is_prefix (lower p) (lower (x # xs))"
    by (rule rmatch_lit)
  then show ?case using Cons [of "Some x"] by (simp add: lower_def)
qed

lemma re_search_lit: "re_search True (lit p) s = contains (lower s) (lower p)"
  by (simp add: re_search_def search_from_lit)

lemma add_per_match_lits:
  "add_per_match amount (map lit ps) content score
     = score + amount * of_nat (length (filter (\<lambda>p. contains (lower content) (lower p)) ps))"
  unfolding add_per_match_def
proof (induction ps arbitrary: score)
  case Nil
  then show ?case by simp
next
  case (Cons p ps)
  show ?case by (simp add: Cons re_search_lit algebra_simps)
qed

lemma recent_phrases_lower: "p \<in> set recent_phrases \<Longrightarrow> lower p = p"
proof -
  have "list_all (\<lambda>p. lower p = p) recent_phrases" by code_simp
  then show "p \<in> set recent_phrases \<Longrightarrow> lower p = p"
    by (simp add: list_all_iff)
qed

lemma foldl_max_Max: "foldl max (y::int) ys = Max (set (y # ys))"
proof -
  have "(\<lambda>x s. max s x) = (max :: int \<Rightarrow> int \<Rightarrow> int)"
    by (intro ext) (simp add: max.commute)
  then have "foldl max y ys = fold max ys y"
    by (simp add: foldl_conv_fold)
  then show ?thesis by (simp only: Max.set_eq_fold)
qed

lemma rmatch_year_pattern:
  assumes "rmatch False year_pattern (prev, s) \<noteq> []"
  shows "\<exists>c d rest. s = CHR ''2'' # CHR ''0'' # c # d # rest \<and> is_digit c \<and> is_digit d
           \<and> rmatch False year_pattern (prev, s) = [(Some d, rest)]"
proof -
  from assms obtain a s1 where s: "s = a # s1"
    by (cases s) (auto simp: year_pattern_def one_char_def split: if_splits)
  from assms s have a: "a = CHR ''2''"
    by (auto simp: year_pattern_def one_char_def char_eq_def split: if_splits)
  from assms s a obtain b s2 where s1: "s1 = b # s2"
    by (cases s1) (auto simp: year_pattern_def one_char_def char_eq_def split: if_splits)
  from assms s a s1 have b: "b = CHR ''0''"
    by (auto simp: year_pattern_def one_char_def char_eq_def split: if_splits)
  from assms s a s1 b obtain c s3 where s2: "s2 = c # s3"
    by (cases s2) (auto simp: year_pattern_def one_char_def char_eq_def split: if_splits)
  from assms s a s1 b s2 have c: "is_digit c"
    by (auto simp: year_pattern_def one_char_def char_eq_def split: if_splits)
  from assms s a s1 b s2 c obtain d rest where s3: "s3 = d # rest"
    by (cases s3) (auto simp: year_pattern_def one_char_def char_eq_def split: if_splits)
  from assms s a s1 b s2 c s3 have d: "is_digit d"
    by (auto simp: year_pattern_def one_char_def char_eq_def split: if_splits)
  from assms s a s1 b s2 c s3 d
  have "rmatch False year_pattern (prev, s) = [(Some d, rest)]"
    by (auto simp: year_pattern_def one_char_def char_eq_def split: if_splits)
  with s a s1 b s2 c s3 d show ?thesis by blast
qed

lemma findall_four_chars:
  assumes m: "\<And>prev s. rmatch ic r (prev, s) \<noteq> [] \<Longrightarrow>
      \<exists>c d rest. s = CHR ''2'' # CHR ''0'' # c # d # rest \<and> is_digit c \<and> is_digit d
           \<and> rmatch ic r (prev, s) = [(Some d, rest)]"
  shows "x \<in> set (findall_from ic r k prev s)
   \<Longrightarrow> \<exists>c d. x = [CHR ''2'', CHR ''0'', c, d] \<and> is_digit c \<and> is_digit d"
proof (induction s arbitrary: k prev)
  case Nil
  have "rmatch ic r (prev, []) = []"
  proof (rule ccontr)
    assume "rmatch ic r (prev, []) \<noteq> []"
    from m [OF this] show False by simp
  qed
  with Nil show ?case by simp
next
  case (Cons x' xs)
  show ?case
  proof (cases k)
    case (Suc k')
    with Cons.prems have "x \<in> set (findall_from ic r k' (Some x') xs)" by simp
    then show ?thesis by (rule Cons.IH)
  next
    case 0
    show ?thesis
    proof (cases "rmatch ic r (prev, x' # xs)")
      case Nil
      with Cons.prems 0 have "x \<in> set (findall_from ic r 0 (Some x') xs)" by simp
      then show ?thesis by (rule Cons.IH)
    next
      case (Cons st sts)
      then have "rmatch ic r (prev, x' # xs) \<noteq> []" by simp
      then obtain c d rest where s: "x' # xs = CHR ''2'' # CHR ''0'' # c # d # rest"
        and c: "is_digit c" and d: "is_digit d"
        and r: "rmatch ic r (prev, x' # xs) = [(Some d, rest)]"
        using m by blast
      from r Cons have st: "st = (Some d, rest)" by simp
      have n: "length (x' # xs) - length (snd st) = 4" unfolding s st by simp
      have n3: "length xs - length (snd st) = 3" using n by simp
      from Cons.prems 0 Cons n n3 have "x = x' # take 3 xs
          \<or> x \<in> set (findall_from ic r 3 (Some x') xs)"
        by (auto simp: Let_def)
      then show ?thesis
      proof
        assume "x = x' # take 3 xs"
        then show ?thesis using s c d by auto
      next
        assume "x \<in> set (findall_from ic r 3 (Some x') xs)"
        then show ?thesis by (rule Cons.IH)
      qed
    qed
  qed
qed

lemma findall_year_tokens:
  "x \<in> set (findall_from False year_pattern k prev s)
   \<Longrightarrow> \<exists>c d. x = [CHR ''2'', CHR ''0'', c, d] \<and> is_digit c \<and> is_digit d"
  using findall_four_chars [of False year_pattern x k prev s] rmatch_year_pattern by blast

lemma digit_value_le_9:
  "is_digit c \<Longrightarrow> length (takeWhile (\<lambda>d. d \<noteq> c) ''0123456789'') \<le> 9"
  by (auto simp: is_digit_def)

lemma year_tokens_range:
  assumes "y \<in> set (map int_of_digits (re_findall False year_pattern content))"
  shows "2000 \<le> y \<and> y \<le> 2099"
proof -
  from assms obtain x where x: "x \<in> set (findall_from False year_pattern 0 None content)"
    and y: "y = int_of_digits x"
    by (auto simp: re_findall_def)
  from findall_year_tokens [OF x] obtain c d where xs: "x = [CHR ''2'', CHR ''0'', c, d]"
    and c: "is_digit c" and d: "is_digit d" by blast
  show ?thesis
    using digit_value_le_9 [OF c] digit_value_le_9 [OF d]
    unfolding y xs int_of_digits_def by simp
qed

text \<open>
  So every year the pattern finds is a number from 2000 to 2099 (\<open>year_tokens_range\<close>).
\<close>

text \<open>
  Claim C8, as the code has it. The timeliness score is 5, plus the adjustment for the most
  recent year among the tokens \<^verbatim>\<open>20dd\<close> found between word boundaries (3 when it is at
  most 1 year before the current year, 1 when at most 3, 0 when at most 5, -2 when older;
  nothing when no such token is found), plus 0.2 for each of the eight recency phrases that
  occurs in the content at least once, case ignored; the sum is clamped to [0, 10].
\<close>

theorem C8_timeliness_formula:
  "assess_timeliness now content =
     min 10 (max 0
       (5
        + (case map int_of_digits (re_findall False year_pattern content) of
             [] \<Rightarrow> 0
           | y # ys \<Rightarrow>
               if int (year now) - Max (set (y # ys)) \<le> 1 then 3
               else if int (year now) - Max (set (y # ys)) \<le> 3 then 1
               else if int (year now) - Max (set (y # ys)) \<le> 5 then 0
               else - 2)
        + (2 / 10) * of_nat (length (filter (\<lambda>phrase. contains (lower content) phrase)
             [''recent'', ''latest'', ''current'', ''updated'', ''new'', ''this year'',
              ''recently'', ''now'']))))"
proof -
  have f: "filter (\<lambda>p. contains (lower content) (lower p)) recent_phrases
         = filter (\<lambda>p. contains (lower content) p) recent_phrases"
    by (rule filter_cong) (simp_all add: recent_phrases_lower)
  have a: "add_per_match (2 / 10) recent_indicators content score
      = score + (2 / 10) * of_nat (length (filter (\<lambda>p. contains (lower content) p) recent_phrases))"
    for score
    unfolding recent_indicators_def add_per_match_lits f ..
  have main: "assess_timeliness now content =
     min 10 (max 0
       (5
        + (case map int_of_digits (re_findall False year_pattern content) of
             [] \<Rightarrow> 0
           | y # ys \<Rightarrow>
               if int (year now) - Max (set (y # ys)) \<le> 1 then 3
               else if int (year now) - Max (set (y # ys)) \<le> 3 then 1
               else if int (year now) - Max (set (y # ys)) \<le> 5 then 0
               else - 2)
        + (2 / 10) * of_nat (length (filter (\<lambda>phrase. contains (lower content) phrase)
             recent_phrases))))"
    unfolding assess_timeliness_def Let_def a clamp_score_def
    by (simp add: foldl_max_Max split: list.splits)
  show ?thesis
    using main unfolding recent_phrases_def .
qed

text \<open>
  The claim as worded counts every occurrence of a phrase and every 4-digit year token.
  The code differs on \<^verbatim>\<open>new new\<close> (one phrase occurring twice: 5.2, not 5.4) and
  on \<^verbatim>\<open>1999\<close> (a year token that does not start with 20: 5.0, not 3.0).
\<close>

theorem C8_timeliness_counterexample:
  "assess_timeliness \<lparr>year = 2026, month = 11, day = 4, hour = 9, minute = 5, second = 0,
       microsecond = 12\<rparr> ''new new''
     \<noteq> timeliness_spec \<lparr>year = 2026, month = 11, day = 4, hour = 9, minute = 5, second = 0,
       microsecond = 12\<rparr> ''new new''
   \<and> assess_timeliness \<lparr>year = 2026, month = 11, day = 4, hour = 9, minute = 5, second = 0,
       microsecond = 12\<rparr> ''1999''
     \<noteq> timeliness_spec \<lparr>year = 2026, month = 11, day = 4, hour = 9, minute = 5, second = 0,
       microsecond = 12\<rparr> ''1999''"
proof -
  let ?now = "\<lparr>year = 2026, month = 11, day = 4, hour = 9, minute = 5, second = 0,
       microsecond = 12\<rparr>"
  have c1: "assess_timeliness ?now ''new new'' = 26 / 5" by code_simp
  have s1: "timeliness_spec ?now ''new new'' = 27 / 5" by code_simp
  have c2: "assess_timeliness ?now ''1999'' = 5" by code_simp
  have s2: "timeliness_spec ?now ''1999'' = 3" by code_simp
  show ?thesis unfolding c1 s1 c2 s2 by simp
qed

subsection \<open>The assessment history\<close>

lemma metrics_of_a_without_url:
  "calculate_quality_metrics now_rel now_time ''a'' [] ''web'' =
     Inr \<lparr>credibility_score = 5, relevance_score = 4, accuracy_score = 6,
          completeness_score = 3, timeliness_score = 5, overall_score = 23 / 5,
          assessment_notes = [''Content length: 1 words''],
          recommendations = generate_recommendations 5 4 6 3 5\<rparr>"
proof -
  have c: "assess_credibility ''a'' [] ''web'' = 5" by code_simp
  have r: "assess_relevance now_rel ''a'' = 4" by code_simp
  have a: "assess_accuracy ''a'' = 6" by code_simp
  have co: "assess_completeness ''a'' = 3" by code_simp
  have t: "assess_timeliness now_time ''a'' = 5" by code_simp
  have n: "generate_assessment_notes ''a'' '''' = [''Content length: 1 words'']" by code_simp
  show ?thesis
    unfolding calculate_quality_metrics_result c r a co t n by simp
qed

lemma metrics_of_a_with_edu_url:
  "calculate_quality_metrics now_rel now_time ''a'' ''http://x.edu'' ''web'' =
     Inr \<lparr>credibility_score = 7, relevance_score = 4, accuracy_score = 6,
          completeness_score = 3, timeliness_score = 5, overall_score = 5,
          assessment_notes = [''Content length: 1 words'', ''Source URL: http://x.edu''],
          recommendations = generate_recommendations 7 4 6 3 5\<rparr>"
proof -
  have c: "assess_credibility ''a'' ''http://x.edu'' ''web'' = 7" by code_simp
  have r: "assess_relevance now_rel ''a'' = 4" by code_simp
  have a: "assess_accuracy ''a'' = 6" by code_simp
  have co: "assess_completeness ''a'' = 3" by code_simp
  have t: "assess_timeliness now_time ''a'' = 5" by code_simp
  have n: "generate_assessment_notes ''a'' ''http://x.edu''
      = [''Content length: 1 words'', ''Source URL: http://x.edu'']" by code_simp
  show ?thesis
    unfolding calculate_quality_metrics_result c r a co t n by simp
qed

lemma example_md5_ids:
  "generate_assessment_id (\<lambda>s. if s = ''a'' then 0 else 79228162514264337593543950336) ''a'' []
     = ''00000000''"
  "generate_assessment_id (\<lambda>s. if s = ''a'' then 0 else 79228162514264337593543950336) ''a''
     ''http://x.edu'' = ''00000001''"
proof -
  let ?md5 = "\<lambda>s. if s = ''a'' then 0 else (79228162514264337593543950336 :: 128 word)"
  have "generate_assessment_id ?md5 ''a'' [] = hex_digits 8 (unat (0 :: 128 word) div 16 ^ 24)"
    unfolding generate_assessment_id_def take8_hexdigest by simp
  then show "generate_assessment_id ?md5 ''a'' [] = ''00000000''"
    by (simp add: hex_digits_8 hex_char_def)
  have "generate_assessment_id ?md5 ''a'' ''http://x.edu''
      = hex_digits 8 (unat (79228162514264337593543950336 :: 128 word) div 16 ^ 24)"
    unfolding generate_assessment_id_def take8_hexdigest by simp
  then show "generate_assessment_id ?md5 ''a'' ''http://x.edu'' = ''00000001''"
    by (simp add: hex_digits_8 hex_char_def)
qed


text \<open>
  Claim C7, evaluated where the code departs from it. Three assessments are stored on a
  new assessor: content \<^verbatim>\<open>a\<close> with no url, content \<^verbatim>\<open>a\<close> with the url
  \<^verbatim>\<open>http://x.edu\<close> (a different id), and content \<^verbatim>\<open>a\<close> with no url again. The
  assessment stored last has credibility 5.0, below the target 6.0; yet the improve action
  reads the last value of the dictionary, which is the second assessment (credibility 7.0),
  and its list does not name credibility.
\<close>

theorem C7_improve_reads_last_inserted_id:
  assumes "generate_assessment_id md5 ''a'' [] \<noteq> generate_assessment_id md5 ''a'' ''http://x.edu''"
  shows "(let s1 = snd (assessor_run md5 t1 t2 new_QualityAssessor ''assess'' ''a'' [] ''web'' 8
                     ''general'');
              s2 = snd (assessor_run md5 t1 t2 s1 ''assess'' ''a'' ''http://x.edu'' ''web'' 8
                     ''general'');
              r3 = fst (assessor_run md5 t1 t2 s2 ''assess'' ''a'' [] ''web'' 8 ''general'');
              s3 = snd (assessor_run md5 t1 t2 s2 ''assess'' ''a'' [] ''web'' 8 ''general'')
          in (\<exists>m. r3 = AssessmentReport (generate_assessment_id md5 ''a'' []) m
                  \<and> dict_get (assessment_history s3) (generate_assessment_id md5 ''a'' []) = Some m
                  \<and> credibility_score m = 5)
             \<and> assessor_run md5 t1 t2 s3 ''improve'' [] [] ''web'' 6 ''general''
                 = (ImprovementList 6 [''Enhance content relevance'',
                      ''Expand content comprehensiveness'', ''Update with recent information''],
                    s3))"
  using assms
  by (simp add: assessor_run_def assess_content_def metrics_of_a_without_url
      metrics_of_a_with_edu_url new_QualityAssessor_def Let_def dict_get_def
      suggest_improvements_def dict_values_def)


theorem C7_improve_witness:
  "generate_assessment_id (\<lambda>s. if s = ''a'' then 0 else 79228162514264337593543950336) ''a'' []
     \<noteq> generate_assessment_id (\<lambda>s. if s = ''a'' then 0 else 79228162514264337593543950336) ''a''
         ''http://x.edu''
   \<and> (let md5 = (\<lambda>s. if s = ''a'' then 0 else 79228162514264337593543950336);
          now = \<lparr>year = 2026, month = 11, day = 4, hour = 9, minute = 5, second = 0,
            microsecond = 12\<rparr>;
          s1 = snd (assessor_run md5 now now new_QualityAssessor ''assess'' ''a'' [] ''web'' 8
                 ''general'');
          s2 = snd (assessor_run md5 now now s1 ''assess'' ''a'' ''http://x.edu'' ''web'' 8
                 ''general'');
          s3 = snd (assessor_run md5 now now s2 ''assess'' ''a'' [] ''web'' 8 ''general'')
      in fst (assessor_run md5 now now s3 ''improve'' [] [] ''web'' 6 ''general'')
           = ImprovementList 6 [''Enhance content relevance'',
               ''Expand content comprehensiveness'', ''Update with recent information''])"
proof -
  have h: "generate_assessment_id (\<lambda>s. if s = ''a'' then 0 else 79228162514264337593543950336)
       ''a'' []
     \<noteq> generate_assessment_id (\<lambda>s. if s = ''a'' then 0 else 79228162514264337593543950336) ''a''
         ''http://x.edu''"
    unfolding example_md5_ids by simp
  show ?thesis
    using h C7_improve_reads_last_inserted_id [OF h,
        of "\<lparr>year = 2026, month = 11, day = 4, hour = 9, minute = 5, second = 0, microsecond = 12\<rparr>"
           "\<lparr>year = 2026, month = 11, day = 4, hour = 9, minute = 5, second = 0, microsecond = 12\<rparr>"]
    by (simp add: Let_def)
qed

lemma hd_generate_assessment_notes:
  "hd (generate_assessment_notes content source_url)
     = ''Content length: '' @ str_nat (word_count content) @ '' words''"
  by (simp add: generate_assessment_notes_def Let_def)

lemma same_first_100:
  "generate_assessment_id md5 (replicate 100 CHR ''a'' @ '' b'') source_url
     = generate_assessment_id md5 (replicate 100 CHR ''a'') source_url"
  by (simp add: generate_assessment_id_def)


text \<open>
  Claim C9, evaluated where the code departs from it. Two contents that agree on their
  first 100 characters, assessed with the same url, get the same assessment id, whatever
  the digest function is. The second assessment replaces the metrics stored under that id
  by the first: the entry read back after the second call differs from the one created by
  the first (its note on the content length says 2 words, not 1).
\<close>

theorem C9_reassessment_replaces_stored_metrics:
  "(let c1 = replicate 100 CHR ''a'';
        c2 = replicate 100 CHR ''a'' @ '' b'';
        aid = generate_assessment_id md5 c1 [];
        r1 = fst (assessor_run md5 t1 t2 self ''assess'' c1 [] ''web'' 8 ''general'');
        s1 = snd (assessor_run md5 t1 t2 self ''assess'' c1 [] ''web'' 8 ''general'');
        r2 = fst (assessor_run md5 t3 t4 s1 ''assess'' c2 [] ''web'' 8 ''general'');
        s2 = snd (assessor_run md5 t3 t4 s1 ''assess'' c2 [] ''web'' 8 ''general'')
    in \<exists>m1 m2. r1 = AssessmentReport aid m1 \<and> dict_get (assessment_history s1) aid = Some m1
          \<and> r2 = AssessmentReport aid m2 \<and> dict_get (assessment_history s2) aid = Some m2
          \<and> hd (assessment_notes m1) = ''Content length: 1 words''
          \<and> hd (assessment_notes m2) = ''Content length: 2 words''
          \<and> m1 \<noteq> m2)"
proof -
  let ?c1 = "replicate 100 CHR ''a''"
  let ?c2 = "replicate 100 CHR ''a'' @ '' b''"
  have w1: "''Content length: '' @ str_nat (word_count ?c1) @ '' words'' = ''Content length: 1 words''"
    by code_simp
  have w2: "''Content length: '' @ str_nat (word_count ?c2) @ '' words'' = ''Content length: 2 words''"
    by code_simp
  have ne1: "?c1 \<noteq> []" and ne2: "?c2 \<noteq> []" by simp_all
  obtain m1 where m1: "calculate_quality_metrics t1 t2 ?c1 [] ''web'' = Inr m1"
    and n1: "assessment_notes m1 = generate_assessment_notes ?c1 []"
    using calculate_quality_metrics_result [of t1 t2 ?c1 "[]" "''web''"] by simp
  obtain m2 where m2: "calculate_quality_metrics t3 t4 ?c2 [] ''web'' = Inr m2"
    and n2: "assessment_notes m2 = generate_assessment_notes ?c2 []"
    using calculate_quality_metrics_result [of t3 t4 ?c2 "[]" "''web''"] by simp
  have h1: "hd (assessment_notes m1) = ''Content length: 1 words''"
    unfolding n1 hd_generate_assessment_notes w1 ..
  have h2: "hd (assessment_notes m2) = ''Content length: 2 words''"
    unfolding n2 hd_generate_assessment_notes w2 ..
  from h1 h2 have diff: "m1 \<noteq> m2" by auto
  show ?thesis
    using ne1 ne2 m1 m2 h1 h2 diff
    by (simp add: Let_def assessor_run_def assess_content_def same_first_100
        dict_get_dict_set_same)
qed

section \<open>Properties of the research workflow\<close>

lemma failed_before_processing:
  "create_tasks_outcome env = Inl e
     \<or> (\<exists>u. create_tasks_outcome env = Inr u \<and> crew_outcome env = Inl e)
     \<or> (\<exists>u v. create_tasks_outcome env = Inr u \<and> crew_outcome env = Inr v
           \<and> kickoff_outcome env = Inl e)
   \<Longrightarrow> execute_research_project md5 output_dir env self files query fmt audience depth
       = (Failed e,
          self\<lparr>status := ''error'', start_time := Some (now_start env),
               errors := errors self @ [e]\<rparr>,
          files)"
  by (auto simp: execute_research_project_def on_exception_def Let_def)

lemma caught_in_processing:
  "create_tasks_outcome env = Inr u \<Longrightarrow> crew_outcome env = Inr v
   \<Longrightarrow> kickoff_outcome env = Inr res
   \<Longrightarrow> open_outcome env = Inl e \<or> (\<exists>f. open_outcome env = Inr f \<and> dump_outcome env = Inl e)
   \<Longrightarrow> \<exists>md. fst (execute_research_project md5 output_dir env self files query fmt audience depth)
           = ProcessingError e md"
  by (auto simp: execute_research_project_def process_workflow_results_def Let_def)

lemma example_stamps:
  "strftime_Ymd_HMS (clock_at 9 6) = ''20261104_090600''"
  "strftime_Ymd (clock_at 9 6) = ''20261104''"
  by code_simp+

lemma example_micro:
  "to_microseconds (clock_at 9 6) - to_microseconds (clock_at 9 10) = - 240000000"
  by (simp add: to_microseconds_def clock_at_def)

lemma example_digits:
  "str_nat (Suc 0) = ''1''" "str_nat 23 = ''23''" "zero_pad 2 56 = ''56''" "zero_pad 2 0 = ''00''"
  by code_simp+

lemma example_duration:
  "str_timedelta (- 240000000) = ''-1 day, 23:56:00''"
  by (simp add: str_timedelta_def Let_def str_int_def example_digits)


text \<open>
  Claim C1, as the code has it. When building the tasks, constructing the crew or running
  it raises, \<^verbatim>\<open>execute_research_project\<close> sets the status to \<^verbatim>\<open>error\<close>, appends the
  message to the errors of the state, returns exactly \<^verbatim>\<open>{status: failed, error}\<close> and
  leaves the files as they were. When opening or writing the summary file raises, the
  exception is caught inside \<^verbatim>\<open>_process_workflow_results\<close> and the record returned is
  \<^verbatim>\<open>{status: error, error, metadata}\<close>.
\<close>

theorem C1_exception_handling:
  "(create_tasks_outcome env = Inl e
      \<or> (\<exists>u. create_tasks_outcome env = Inr u \<and> crew_outcome env = Inl e)
      \<or> (\<exists>u v. create_tasks_outcome env = Inr u \<and> crew_outcome env = Inr v
            \<and> kickoff_outcome env = Inl e)
    \<longrightarrow> execute_research_project md5 output_dir env self files query fmt audience depth
        = (Failed e,
           self\<lparr>status := ''error'', start_time := Some (now_start env),
                errors := errors self @ [e]\<rparr>,
           files))
   \<and> ((\<exists>u v res. create_tasks_outcome env = Inr u \<and> crew_outcome env = Inr v
            \<and> kickoff_outcome env = Inr res)
        \<and> (open_outcome env = Inl e
            \<or> (\<exists>f. open_outcome env = Inr f \<and> dump_outcome env = Inl e))
      \<longrightarrow> (\<exists>md. fst (execute_research_project md5 output_dir env self files query fmt audience
                     depth) = ProcessingError e md))"
  using failed_before_processing [of env e md5 output_dir self files query fmt audience depth]
    caught_in_processing [of env _ _ _ e md5 output_dir self files query fmt audience depth]
  by blast

theorem C1_exception_witness:
  "kickoff_outcome ((all_succeed (clock_at 9 5) (clock_at 9 6))
       \<lparr>kickoff_outcome := Inl ''rate limit exceeded''\<rparr>) = Inl ''rate limit exceeded''
   \<and> execute_research_project (\<lambda>s. 0) ''output''
        ((all_succeed (clock_at 9 5) (clock_at 9 6))\<lparr>kickoff_outcome := Inl ''rate limit exceeded''\<rparr>)
        new_workflow_state Map.empty ''quantum computing trends'' ''comprehensive_report''
        ''professional'' ''detailed''
     = (Failed ''rate limit exceeded'',
        new_workflow_state\<lparr>status := ''error'', start_time := Some (clock_at 9 5),
          errors := [''rate limit exceeded'']\<rparr>,
        Map.empty)
   \<and> open_outcome ((all_succeed (clock_at 9 5) (clock_at 9 6))
       \<lparr>open_outcome := Inl ''Permission denied''\<rparr>) = Inl ''Permission denied''
   \<and> (\<exists>md. fst (execute_research_project (\<lambda>s. 0) ''output''
        ((all_succeed (clock_at 9 5) (clock_at 9 6))\<lparr>open_outcome := Inl ''Permission denied''\<rparr>)
        new_workflow_state Map.empty ''quantum computing trends'' ''comprehensive_report''
        ''professional'' ''detailed'') = ProcessingError ''Permission denied'' md)"
  using C1_exception_handling [of
      "(all_succeed (clock_at 9 5) (clock_at 9 6))\<lparr>kickoff_outcome := Inl ''rate limit exceeded''\<rparr>"
      "''rate limit exceeded''" "\<lambda>s. 0" "''output''" new_workflow_state Map.empty
      "''quantum computing trends''" "''comprehensive_report''" "''professional''" "''detailed''"]
    C1_exception_handling [of
      "(all_succeed (clock_at 9 5) (clock_at 9 6))\<lparr>open_outcome := Inl ''Permission denied''\<rparr>"
      "''Permission denied''" "\<lambda>s. 0" "''output''" new_workflow_state Map.empty
      "''quantum computing trends''" "''comprehensive_report''" "''professional''" "''detailed''"]
  by (simp add: all_succeed_def new_workflow_state_def)

text \<open>
  The claim as worded fails for summary persistence: when \<^verbatim>\<open>open\<close> raises, the record
  returned is not \<^verbatim>\<open>{status: failed, error}\<close>, the status of the state ends as
  \<^verbatim>\<open>completed\<close> and nothing is appended to its errors; when \<^verbatim>\<open>json.dump\<close> raises, the
  summary file moreover exists, incomplete.
\<close>

theorem C1_exception_counterexample:
  "(let (r, st, fs) = execute_research_project (\<lambda>s. 0) ''output''
        ((all_succeed (clock_at 9 5) (clock_at 9 6))\<lparr>open_outcome := Inl ''Permission denied''\<rparr>)
        new_workflow_state Map.empty ''quantum computing trends'' ''comprehensive_report''
        ''professional'' ''detailed''
    in r \<noteq> Failed ''Permission denied'' \<and> status st = ''completed'' \<and> errors st = [])
   \<and> (let (r, st, fs) = execute_research_project (\<lambda>s. 0) ''output''
        ((all_succeed (clock_at 9 5) (clock_at 9 6))\<lparr>dump_outcome := Inl ''No space left on device''\<rparr>)
        new_workflow_state Map.empty ''quantum computing trends'' ''comprehensive_report''
        ''professional'' ''detailed''
    in r \<noteq> Failed ''No space left on device'' \<and> status st = ''completed'' \<and> errors st = []
       \<and> fs ''output/workflow_summary_20261104_090600.json'' = Some Incomplete)"
  by (simp add: execute_research_project_def process_workflow_results_def Let_def
      all_succeed_def new_workflow_state_def example_stamps path_join_def)

text \<open>
  Claim C10, as the code has it. When the state holds no end time as the call starts (no
  earlier call of this orchestrator has completed), a call that returns a success record
  reports the duration \<^verbatim>\<open>unknown\<close>: the metadata is built before the end time is set.
\<close>

theorem C10_duration_unknown_without_end_time:
  assumes "end_time self = None"
    and "execute_research_project md5 output_dir env self files query fmt audience depth
           = (Success md final_output summary_file dir, self', files')"
  shows "workflow_duration md = ''unknown''"
  using assms
  by (auto simp: execute_research_project_def process_workflow_results_def Let_def
      on_exception_def calculate_duration_def split: sum.splits)


lemma first_run:
  "execute_research_project (\<lambda>s. 0) ''output'' (all_succeed (clock_at 9 5) (clock_at 9 6))
        new_workflow_state Map.empty ''quantum computing trends'' ''comprehensive_report''
        ''professional'' ''detailed''
   = (Success \<lparr>project_id = generate_project_id (\<lambda>s. 0) (clock_at 9 6) ''quantum computing trends'',
         timestamp = ''20261104_090600'', research_query = ''quantum computing trends'',
         output_format = ''comprehensive_report'', workflow_duration = ''unknown'',
         agents_used = [''research_agent'', ''analysis_agent'', ''content_agent''],
         tools_used = [''serper_search'', ''citation_manager'', ''quality_assessor'',
           ''file_operations'']\<rparr> ''report'' ''output/workflow_summary_20261104_090600.json''
         ''output'',
      snd (execute_research_project (\<lambda>s. 0) ''output'' (all_succeed (clock_at 9 5) (clock_at 9 6))
        new_workflow_state Map.empty ''quantum computing trends'' ''comprehensive_report''
        ''professional'' ''detailed''))"
  by (simp add: execute_research_project_def process_workflow_results_def Let_def
      all_succeed_def new_workflow_state_def example_stamps path_join_def calculate_duration_def)

theorem C10_duration_witness:
  "end_time new_workflow_state = None
   \<and> (\<exists>md out path dir.
        fst (execute_research_project (\<lambda>s. 0) ''output'' (all_succeed (clock_at 9 5) (clock_at 9 6))
          new_workflow_state Map.empty ''quantum computing trends'' ''comprehensive_report''
          ''professional'' ''detailed'') = Success md out path dir
        \<and> workflow_duration md = ''unknown'')"
proof -
  have h: "end_time new_workflow_state = None" by (simp add: new_workflow_state_def)
  obtain md out path dir st fs where run:
    "execute_research_project (\<lambda>s. 0) ''output'' (all_succeed (clock_at 9 5) (clock_at 9 6))
        new_workflow_state Map.empty ''quantum computing trends'' ''comprehensive_report''
        ''professional'' ''detailed'' = (Success md out path dir, st, fs)"
    using first_run by (metis prod.collapse)
  have "workflow_duration md = ''unknown''"
    by (rule C10_duration_unknown_without_end_time [OF h run])
  with run h show ?thesis by auto
qed

text \<open>
  The claim as worded fails on an orchestrator that is used again: the second call finds
  the end time of the first in the state and reports the difference between that end time
  and its own start, here minus four minutes.
\<close>

theorem C10_duration_counterexample:
  "(let (r1, st1, fs1) = execute_research_project (\<lambda>s. 0) ''output''
        (all_succeed (clock_at 9 5) (clock_at 9 6)) new_workflow_state Map.empty
        ''quantum computing trends'' ''comprehensive_report'' ''professional'' ''detailed'';
        (r2, st2, fs2) = execute_research_project (\<lambda>s. 0) ''output''
        (all_succeed (clock_at 9 10) (clock_at 9 11)) st1 fs1
        ''quantum computing trends'' ''comprehensive_report'' ''professional'' ''detailed''
    in case r2 of
         Success md out path dir \<Rightarrow>
           workflow_duration md = ''-1 day, 23:56:00'' \<and> workflow_duration md \<noteq> ''unknown''
       | ProcessingError e md \<Rightarrow> False
       | Failed e \<Rightarrow> False)"
  by (simp add: execute_research_project_def process_workflow_results_def Let_def
      all_succeed_def new_workflow_state_def calculate_duration_def example_micro example_duration)

end
